theory Spec2Isabelle
  imports Complex_Main
begin

section \<open>Tables, cells and errors\<close>

text \<open>
  The script \<^verbatim>\<open>eurostat_intra_eu_trade_2022.py\<close> works on pandas tables. A cell of a
  table is a string, a number or the missing value (pandas \<^verbatim>\<open>NaN\<close>/\<^verbatim>\<open>None\<close>).
  Numbers are modelled as reals: rounding of the floating-point sum is not represented.
  Strings are lists of 8-bit characters.
\<close>

datatype cell = Str string | Num real | NaN

text \<open>
  The exceptions the script can raise. \<open>Unmodelled\<close> is not a Python exception: it
  marks the one situation whose pandas behaviour is not represented here, a column
  read as an attribute (\<^verbatim>\<open>df.name\<close>) or summed when several columns carry the label.
\<close>

datatype error = KeyError | ValueError | IndexError | AttributeError | TypeError | Unmodelled

section \<open>The country code table\<close>

text \<open>
  \<^verbatim>\<open>pd.read_excel(excel_path)\<close> yields a table with the four columns
  \<^verbatim>\<open>Country\<close>, \<^verbatim>\<open>Alpha-2 code\<close>, \<^verbatim>\<open>Alpha-3 code\<close>, \<^verbatim>\<open>Numeric\<close>. Reading the file is
  outside the model: the table that was read is the parameter \<open>src\<close>.
\<close>

record country_row =
  Country :: cell
  Alpha2 :: cell
  Alpha3 :: cell
  Numeric :: cell

definition country_updates :: "(string \<times> string) list" where
  "country_updates =
     [(''US'', ''United States''), (''GB'', ''United Kingdom''),
      (''NL'', ''Netherlands''), (''MD'', ''Moldova'')]"

definition code_updates :: "(string \<times> string) list" where
  "code_updates = [(''Greece'', ''EL''), (''United Kingdom'', ''UK'')]"

text \<open>
  \<^verbatim>\<open>country_codes.loc[country_codes["Alpha-2 code"] == code, "Country"] = country\<close>:
  every row whose code cell equals the string gets the new name.
\<close>

definition set_country_where_code :: "string \<times> string \<Rightarrow> country_row list \<Rightarrow> country_row list" where
  "set_country_where_code = (\<lambda>(code, country) t.
     map (\<lambda>r. if Alpha2 r = Str code then r\<lparr>Country := Str country\<rparr> else r) t)"

text \<open>
  \<^verbatim>\<open>country_codes.loc[country_codes.Country == country, "Alpha-2 code"] = code\<close>.
\<close>

definition set_code_where_country :: "string \<times> string \<Rightarrow> country_row list \<Rightarrow> country_row list" where
  "set_code_where_country = (\<lambda>(country, code) t.
     map (\<lambda>r. if Country r = Str country then r\<lparr>Alpha2 := Str code\<rparr> else r) t)"

text \<open>The two \<^verbatim>\<open>for\<close> loops over the dictionaries, in insertion order.\<close>

definition apply_corrections :: "country_row list \<Rightarrow> country_row list" where
  "apply_corrections t =
     fold set_code_where_country code_updates (fold set_country_where_code country_updates t)"

definition new_rows :: "country_row list" where
  "new_rows = [\<lparr>Country = Str ''Kosovo'', Alpha2 = Str ''XK'', Alpha3 = Str ''XKO'', Numeric = Num 9999\<rparr>]"

definition get_country_codes :: "country_row list \<Rightarrow> country_row list" where
  "get_country_codes src = apply_corrections src @ new_rows"

section \<open>The corrections, row by row\<close>

definition correct_name :: "country_row \<Rightarrow> country_row" where
  "correct_name r =
     (if Alpha2 r = Str ''MD'' then r\<lparr>Country := Str ''Moldova''\<rparr>
      else if Alpha2 r = Str ''NL'' then r\<lparr>Country := Str ''Netherlands''\<rparr>
      else if Alpha2 r = Str ''GB'' then r\<lparr>Country := Str ''United Kingdom''\<rparr>
      else if Alpha2 r = Str ''US'' then r\<lparr>Country := Str ''United States''\<rparr>
      else r)"

definition correct_code :: "country_row \<Rightarrow> country_row" where
  "correct_code r =
     (if Country r = Str ''United Kingdom'' then r\<lparr>Alpha2 := Str ''UK''\<rparr>
      else if Country r = Str ''Greece'' then r\<lparr>Alpha2 := Str ''EL''\<rparr>
      else r)"

section \<open>Strings\<close>

text \<open>
  Python's \<^verbatim>\<open>str.strip()\<close> removes leading and trailing whitespace; among the
  characters below 256 these are the ones \<^verbatim>\<open>str.isspace\<close> accepts.
\<close>

definition is_space :: "char \<Rightarrow> bool" where
  "is_space c \<longleftrightarrow>
     c \<in> set [CHR 0x09, CHR 0x0A, CHR 0x0B, CHR 0x0C, CHR 0x0D, CHR 0x1C, CHR 0x1D,
              CHR 0x1E, CHR 0x1F, CHR 0x20, CHR 0x85, CHR 0xA0]"

definition strip :: "string \<Rightarrow> string" where
  "strip s = rev (dropWhile is_space (rev (dropWhile is_space s)))"

text \<open>Python's \<^verbatim>\<open>s.split(',')\<close>: the fields between the separators, at least one.\<close>

fun split_on :: "char \<Rightarrow> string \<Rightarrow> string list" where
  "split_on d [] = [[]]"
| "split_on d (c # cs) =
     (if c = d then [] # split_on d cs
      else (case split_on d cs of [] \<Rightarrow> [[c]] | w # ws \<Rightarrow> (c # w) # ws))"

section \<open>Data frames\<close>

text \<open>
  A data frame is its list of column labels and its rows, each row holding one cell per
  column, in column order. Labels may repeat, as in pandas. Column types (dtypes) are
  not stored: where pandas decides by the dtype of a column, the model decides by its
  cells, and a column without any string or number is taken as a column of objects.
\<close>

record dataframe =
  columns :: "string list"
  rows :: "cell list list"

definition wf_frame :: "dataframe \<Rightarrow> bool" where
  "wf_frame df \<longleftrightarrow> list_all (\<lambda>r. length r = length (columns df)) (rows df)"

fun is_Str :: "cell \<Rightarrow> bool" where
  "is_Str (Str s) = True"
| "is_Str c = False"

fun is_Num :: "cell \<Rightarrow> bool" where
  "is_Num (Num x) = True"
| "is_Num c = False"

text \<open>A column pandas would hold with a numeric dtype: some number and no string.\<close>

definition numeric_column :: "cell list \<Rightarrow> bool" where
  "numeric_column xs \<longleftrightarrow> list_ex is_Num xs \<and> \<not> list_ex is_Str xs"

definition column_positions :: "string \<Rightarrow> string list \<Rightarrow> nat list" where
  "column_positions c cs = filter (\<lambda>i. cs ! i = c) [0..<length cs]"

definition column_at :: "nat \<Rightarrow> dataframe \<Rightarrow> cell list" where
  "column_at p df = map (\<lambda>r. r ! p) (rows df)"

definition and_then :: "error + 'a \<Rightarrow> ('a \<Rightarrow> error + 'b) \<Rightarrow> error + 'b" where
  "and_then m f = (case m of Inl e \<Rightarrow> Inl e | Inr x \<Rightarrow> f x)"

text \<open>
  \<^verbatim>\<open>df.drop(columns=[c])\<close> where the label is present: every column labelled \<open>c\<close>
  goes, from the labels and from each row.
\<close>

definition drop_cells :: "string \<Rightarrow> string list \<Rightarrow> 'a list \<Rightarrow> 'a list" where
  "drop_cells c labels r = map fst (filter (\<lambda>(x, l). l \<noteq> c) (zip r labels))"

definition drop_label :: "string \<Rightarrow> dataframe \<Rightarrow> dataframe" where
  "drop_label c df =
     \<lparr>columns = filter (\<lambda>l. l \<noteq> c) (columns df),
      rows = map (drop_cells c (columns df)) (rows df)\<rparr>"

text \<open>\<^verbatim>\<open>pd.concat([a, b], axis=1)\<close> of two frames over the same row index.\<close>

definition concat_columns :: "dataframe \<Rightarrow> dataframe \<Rightarrow> dataframe" where
  "concat_columns a b =
     \<lparr>columns = columns a @ columns b, rows = map2 (@) (rows a) (rows b)\<rparr>"

section \<open>The reshaper\<close>

text \<open>
  \<^verbatim>\<open>series.str.split(',', expand=True)\<close>: a string cell gives its fields, any
  other cell gives one missing value; the frame is as wide as the longest row (no
  column when there is no row) and shorter rows are filled with missing values.
\<close>

fun split_cell :: "cell \<Rightarrow> cell list" where
  "split_cell (Str s) = map Str (split_on CHR '','' s)"
| "split_cell c = [NaN]"

definition split_width :: "cell list \<Rightarrow> nat" where
  "split_width series = fold max (map (length \<circ> split_cell) series) 0"

definition str_split_expand :: "cell list \<Rightarrow> cell list list" where
  "str_split_expand series =
     map (\<lambda>c. split_cell c @ replicate (split_width series - length (split_cell c)) NaN) series"

fun index_of :: "'a \<Rightarrow> 'a list \<Rightarrow> nat" where
  "index_of x [] = 0"
| "index_of x (y # ys) = (if x = y then 0 else Suc (index_of x ys))"

text \<open>
  \<^verbatim>\<open>pd.melt(frame, id_vars, var_name, value_name)\<close> (pandas 2): the value name must
  not be a column; every identifier must be a column, and exactly one (popping a
  repeated label yields a frame, which has no dtype). The other columns are the value
  columns. The result is built from a dictionary filled in the order identifiers,
  value, variable, and read in the order identifiers, variable, value; it has one
  block of rows per value column.
\<close>

definition melt_cell ::
  "string list \<Rightarrow> string list \<Rightarrow> string \<Rightarrow> string \<Rightarrow> nat \<Rightarrow> cell list \<Rightarrow> string \<Rightarrow> cell" where
  "melt_cell labels id_vars var_name value_name j r c =
     (if c = var_name then Str (labels ! j)
      else if c = value_name then r ! j
      else r ! index_of c labels)"

definition melt :: "dataframe \<Rightarrow> string list \<Rightarrow> string \<Rightarrow> string \<Rightarrow> error + dataframe" where
  "melt frame id_vars var_name value_name =
     (if value_name \<in> set (columns frame) then Inl ValueError
      else if \<not> set id_vars \<subseteq> set (columns frame) then Inl KeyError
      else if list_ex (\<lambda>c. 1 < count_list (columns frame) c) id_vars then Inl AttributeError
      else
        let value_vars = filter (\<lambda>j. columns frame ! j \<notin> set id_vars) [0..<length (columns frame)];
            mcolumns = id_vars @ [var_name, value_name]
        in Inr \<lparr>columns = mcolumns,
                rows = concat (map (\<lambda>j.
                  map (\<lambda>r. map (melt_cell (columns frame) id_vars var_name value_name j r) mcolumns)
                    (rows frame)) value_vars)\<rparr>)"

text \<open>
  \<^verbatim>\<open>process_road_euro_stat(df, cols, first_col)\<close>. \<^verbatim>\<open>df[first_col]\<close> raises
  KeyError when no column has the label and is a frame (without \<^verbatim>\<open>.str\<close>) when
  several have it; \<^verbatim>\<open>.str\<close> raises AttributeError on a numeric column; assigning
  \<^verbatim>\<open>cols\<close> to a frame of another width raises ValueError.
\<close>

definition process_road_euro_stat :: "dataframe \<Rightarrow> string list \<Rightarrow> string \<Rightarrow> error + dataframe" where
  "process_road_euro_stat df cols first_col =
     (case column_positions first_col (columns df) of
        [] \<Rightarrow> Inl KeyError
      | [p] \<Rightarrow>
          if numeric_column (column_at p df) then Inl AttributeError
          else if split_width (column_at p df) \<noteq> length cols then Inl ValueError
          else
            let split_columns = \<lparr>columns = cols, rows = str_split_expand (column_at p df)\<rparr>;
                df1 = drop_label first_col df;
                df2 = concat_columns split_columns df1;
                df3 = df2\<lparr>columns := map strip (columns df2)\<rparr>;
                id_vars = columns split_columns
            in melt df3 id_vars ''TIME_PERIOD'' ''value''
      | p # q # ps \<Rightarrow> Inl AttributeError)"


section \<open>The country annotator\<close>

text \<open>\<^verbatim>\<open>country_codes[["Country", "Alpha-2 code"]]\<close>.\<close>

definition country_frame :: "country_row list \<Rightarrow> dataframe" where
  "country_frame t =
     \<lparr>columns = [''Country'', ''Alpha-2 code''], rows = map (\<lambda>r. [Country r, Alpha2 r]) t\<rparr>"

text \<open>
  \<^verbatim>\<open>left.merge(right, how="left", left_on=.., right_on=..)\<close> (pandas 2). A key label
  that is missing raises KeyError, one that is repeated ValueError, and so does a
  numeric key column against a column of strings. When both keys have the same label
  the right key column is not repeated. Labels the two frames share get the suffixes
  \<open>_x\<close> and \<open>_y\<close>, and a suffixed label that repeats another one is refused. Each
  left row is kept, in order: once for every right row with an equal key (missing keys
  are equal to each other), in the right table's order, or once with missing values.
\<close>

definition incompatible_keys :: "cell list \<Rightarrow> cell list \<Rightarrow> bool" where
  "incompatible_keys l r \<longleftrightarrow>
     numeric_column l \<and> list_ex is_Str r \<or> numeric_column r \<and> list_ex is_Str l"

definition add_suffix :: "string \<Rightarrow> string list \<Rightarrow> string list \<Rightarrow> string list" where
  "add_suffix sfx other cs = map (\<lambda>c. if c \<in> set other then c @ sfx else c) cs"

definition duplicated_at :: "string list \<Rightarrow> nat \<Rightarrow> bool" where
  "duplicated_at xs i \<longleftrightarrow> xs ! i \<in> set (take i xs)"

definition suffix_clash :: "string list \<Rightarrow> string list \<Rightarrow> bool" where
  "suffix_clash old new \<longleftrightarrow>
     list_ex (\<lambda>i. duplicated_at new i \<and> \<not> duplicated_at old i) [0..<length new]"

definition merge_left :: "dataframe \<Rightarrow> dataframe \<Rightarrow> string \<Rightarrow> string \<Rightarrow> error + dataframe" where
  "merge_left left right left_on right_on =
     (case column_positions left_on (columns left) of
        [] \<Rightarrow> Inl KeyError
      | [lp] \<Rightarrow>
          (case column_positions right_on (columns right) of
             [] \<Rightarrow> Inl KeyError
           | [rp] \<Rightarrow>
               if incompatible_keys (column_at lp left) (column_at rp right) then Inl ValueError
               else
                 let same = (left_on = right_on);
                     right_labels = (if same then filter (\<lambda>l. l \<noteq> right_on) (columns right)
                                     else columns right);
                     lcols = add_suffix ''_x'' right_labels (columns left);
                     rcols = add_suffix ''_y'' (columns left) right_labels
                 in if suffix_clash (columns left) lcols \<or> suffix_clash right_labels rcols
                    then Inl ValueError
                    else Inr \<lparr>columns = lcols @ rcols,
                      rows = concat (map (\<lambda>l.
                        case filter (\<lambda>r. r ! rp = l ! lp) (rows right) of
                          [] \<Rightarrow> [l @ replicate (length rcols) NaN]
                        | m # ms \<Rightarrow>
                            map (\<lambda>r. l @ (if same then drop_cells right_on (columns right) r else r))
                              (m # ms)) (rows left))\<rparr>
           | rp # rq # rps \<Rightarrow> Inl ValueError)
      | lp # lq # lps \<Rightarrow> Inl ValueError)"

text \<open>\<^verbatim>\<open>df.rename(columns={old: new})\<close>; a label that is absent is ignored.\<close>

definition rename_label :: "string \<Rightarrow> string \<Rightarrow> dataframe \<Rightarrow> dataframe" where
  "rename_label old new df = df\<lparr>columns := map (\<lambda>c. if c = old then new else c) (columns df)\<rparr>"

text \<open>
  \<^verbatim>\<open>merge_and_rename(df, merge_on, new_column_name)\<close>. The country table is read and
  corrected again on every call; \<^verbatim>\<open>drop\<close> raises KeyError when no column is
  labelled \<^verbatim>\<open>Alpha-2 code\<close>.
\<close>

definition merge_and_rename ::
  "country_row list \<Rightarrow> dataframe \<Rightarrow> string \<Rightarrow> string \<Rightarrow> error + dataframe" where
  "merge_and_rename src df merge_on new_column_name =
     (let country_codes = get_country_codes src in
      and_then (merge_left df (country_frame country_codes) merge_on ''Alpha-2 code'')
        (\<lambda>merged.
           let renamed = rename_label ''Country'' new_column_name merged in
           if ''Alpha-2 code'' \<in> set (columns renamed)
           then Inr (drop_label ''Alpha-2 code'' renamed)
           else Inl KeyError))"

section \<open>Filter and aggregate\<close>

definition lgtt_cols :: "string list" where
  "lgtt_cols = [''freq'', ''tra_type'', ''c_unload'', ''nst07'', ''unit'', ''geo'']"

definition lgtt_fc :: string where
  "lgtt_fc = ''freq,tra_type,c_unload,nst07,unit,geo'' @ [CHR 0x5C] @ ''TIME_PERIOD''"

definition ugtt_cols :: "string list" where
  "ugtt_cols = [''freq'', ''tra_type'', ''c_load'', ''nst07'', ''unit'', ''geo'']"

definition ugtt_fc :: string where
  "ugtt_fc = ''freq,tra_type,c_load,nst07,unit,geo'' @ [CHR 0x5C] @ ''TIME_PERIOD''"

definition cross_cols :: "string list" where
  "cross_cols = [''freq'', ''tra_type'', ''c_load'', ''c_unload'', ''nst07'', ''unit'', ''geo'']"

definition cross_fc :: string where
  "cross_fc = ''freq,tra_type,c_load,c_unload,nst07,unit,geo'' @ [CHR 0x5C] @ ''TIME_PERIOD''"

text \<open>The three tables after reshaping and the two annotations each (script lines 92 to 104).\<close>

definition lgtt_annotated :: "country_row list \<Rightarrow> dataframe \<Rightarrow> error + dataframe" where
  "lgtt_annotated src raw =
     and_then (process_road_euro_stat raw lgtt_cols lgtt_fc) (\<lambda>t.
     and_then (merge_and_rename src t ''c_unload'' ''unload_country'') (\<lambda>t.
       merge_and_rename src t ''geo'' ''geo_country''))"

definition ugtt_annotated :: "country_row list \<Rightarrow> dataframe \<Rightarrow> error + dataframe" where
  "ugtt_annotated src raw =
     and_then (process_road_euro_stat raw ugtt_cols ugtt_fc) (\<lambda>t.
     and_then (merge_and_rename src t ''c_load'' ''load_country'') (\<lambda>t.
       merge_and_rename src t ''geo'' ''geo_country''))"

definition cross_annotated :: "country_row list \<Rightarrow> dataframe \<Rightarrow> error + dataframe" where
  "cross_annotated src raw =
     and_then (process_road_euro_stat raw cross_cols cross_fc) (\<lambda>t.
     and_then (merge_and_rename src t ''c_load'' ''load_country'') (\<lambda>t.
       merge_and_rename src t ''c_unload'' ''unload_country''))"

text \<open>
  A column read as an attribute, \<^verbatim>\<open>df.name\<close>: AttributeError when no column has
  the label.
\<close>

definition getattr_column :: "dataframe \<Rightarrow> string \<Rightarrow> error + cell list" where
  "getattr_column df name =
     (case column_positions name (columns df) of
        [] \<Rightarrow> Inl AttributeError
      | [p] \<Rightarrow> Inr (column_at p df)
      | p # q # ps \<Rightarrow> Inl Unmodelled)"

text \<open>\<^verbatim>\<open>series == s\<close>, \<^verbatim>\<open>series.str.len() == n\<close>, \<^verbatim>\<open>a & b\<close> and \<^verbatim>\<open>df[mask]\<close>.\<close>

definition eq_str :: "cell list \<Rightarrow> string \<Rightarrow> bool list" where
  "eq_str series s = map (\<lambda>c. c = Str s) series"

fun has_len :: "nat \<Rightarrow> cell \<Rightarrow> bool" where
  "has_len n (Str s) = (length s = n)"
| "has_len n c = False"

definition str_len_eq :: "cell list \<Rightarrow> nat \<Rightarrow> error + bool list" where
  "str_len_eq series n =
     (if numeric_column series then Inl AttributeError else Inr (map (has_len n) series))"

definition mask_and :: "bool list \<Rightarrow> bool list \<Rightarrow> bool list" where
  "mask_and a b = map2 (\<and>) a b"

definition select_rows :: "dataframe \<Rightarrow> bool list \<Rightarrow> dataframe" where
  "select_rows df keep = df\<lparr>rows := map fst (filter snd (zip (rows df) keep))\<rparr>"

text \<open>Script lines 106 to 123.\<close>

definition lgtt_filter :: "dataframe \<Rightarrow> error + dataframe" where
  "lgtt_filter lgtt =
     and_then (getattr_column lgtt ''tra_type'') (\<lambda>tra_type.
     and_then (getattr_column lgtt ''unit'') (\<lambda>unit.
     and_then (getattr_column lgtt ''nst07'') (\<lambda>nst07.
     and_then (getattr_column lgtt ''TIME_PERIOD'') (\<lambda>time_period.
     and_then (getattr_column lgtt ''c_unload'') (\<lambda>c_unload.
     and_then (str_len_eq c_unload 2) (\<lambda>len2.
       Inr (select_rows lgtt
         (mask_and (mask_and (mask_and (mask_and
            (eq_str tra_type ''TOTAL'') (eq_str unit ''THS_T''))
            (eq_str nst07 ''TOTAL'')) (eq_str time_period ''2022'')) len2))))))))"

definition ugtt_filter :: "dataframe \<Rightarrow> error + dataframe" where
  "ugtt_filter ugtt =
     and_then (getattr_column ugtt ''tra_type'') (\<lambda>tra_type.
     and_then (getattr_column ugtt ''unit'') (\<lambda>unit.
     and_then (getattr_column ugtt ''nst07'') (\<lambda>nst07.
     and_then (getattr_column ugtt ''TIME_PERIOD'') (\<lambda>time_period.
     and_then (getattr_column ugtt ''c_load'') (\<lambda>c_load.
     and_then (str_len_eq c_load 2) (\<lambda>len2.
       Inr (select_rows ugtt
         (mask_and (mask_and (mask_and (mask_and
            (eq_str tra_type ''TOTAL'') (eq_str unit ''THS_T''))
            (eq_str nst07 ''TOTAL'')) (eq_str time_period ''2022'')) len2))))))))"

definition cross_filter :: "dataframe \<Rightarrow> error + dataframe" where
  "cross_filter cross =
     and_then (getattr_column cross ''tra_type'') (\<lambda>tra_type.
     and_then (getattr_column cross ''unit'') (\<lambda>unit.
     and_then (getattr_column cross ''nst07'') (\<lambda>nst07.
     and_then (getattr_column cross ''TIME_PERIOD'') (\<lambda>time_period.
     and_then (getattr_column cross ''c_load'') (\<lambda>c_load.
     and_then (str_len_eq c_load 2) (\<lambda>load2.
     and_then (getattr_column cross ''c_unload'') (\<lambda>c_unload.
     and_then (str_len_eq c_unload 2) (\<lambda>unload2.
       Inr (select_rows cross
         (mask_and (mask_and (mask_and (mask_and (mask_and
            (eq_str tra_type ''TOTAL'') (eq_str unit ''THS_T''))
            (eq_str nst07 ''TOTAL'')) (eq_str time_period ''2022'')) load2) unload2))))))))))"






definition first_value :: "cell list \<Rightarrow> error + cell" where
  "first_value vs = (case vs of [] \<Rightarrow> Inl IndexError | v # _ \<Rightarrow> Inr v)"

definition lgtt_be_fr :: "dataframe \<Rightarrow> error + cell" where
  "lgtt_be_fr lgtt =
     and_then (getattr_column lgtt ''geo_country'') (\<lambda>geo_country.
     and_then (getattr_column lgtt ''unload_country'') (\<lambda>unload_country.
     and_then (getattr_column
                 (select_rows lgtt
                    (mask_and (eq_str geo_country ''Belgium'') (eq_str unload_country ''France'')))
                 ''value'')
       first_value))"

definition ugtt_be_fr :: "dataframe \<Rightarrow> error + cell" where
  "ugtt_be_fr ugtt =
     and_then (getattr_column ugtt ''load_country'') (\<lambda>load_country.
     and_then (getattr_column ugtt ''geo_country'') (\<lambda>geo_country.
     and_then (getattr_column
                 (select_rows ugtt
                    (mask_and (eq_str load_country ''Belgium'') (eq_str geo_country ''France'')))
                 ''value'')
       first_value))"

section \<open>Notions used to state the properties\<close>


text \<open>The rows with string \<open>x\<close> in column \<open>a\<close> and string \<open>y\<close> in column \<open>b\<close>.\<close>

definition matching_rows :: "nat \<Rightarrow> string \<Rightarrow> nat \<Rightarrow> string \<Rightarrow> dataframe \<Rightarrow> cell list list" where
  "matching_rows a x b y t = filter (\<lambda>r. r ! a = Str x \<and> r ! b = Str y) (rows t)"

text \<open>The columns of a tidy table with keys \<open>cols\<close> after two annotations.\<close>

definition annotated_columns :: "string list \<Rightarrow> string \<Rightarrow> string \<Rightarrow> string list" where
  "annotated_columns cols first second = cols @ [''TIME_PERIOD'', ''value'', first, second]"

text \<open>
  What a left join makes of one row whose code is at position \<open>p\<close>: the row with the
  name of each entry of the country table that has the code, or with a missing name.
\<close>

definition annotate :: "country_row list \<Rightarrow> nat \<Rightarrow> cell list \<Rightarrow> cell list list" where
  "annotate cc p r =
     (case filter (\<lambda>e. Alpha2 e = r ! p) cc of
        [] \<Rightarrow> [r @ [NaN]]
      | m # ms \<Rightarrow> map (\<lambda>e. r @ [Country e]) (m # ms))"

text \<open>Every row of the reference table with code \<open>GR\<close> is named \<open>Greece\<close>.\<close>

definition greece_named :: "country_row list \<Rightarrow> bool" where
  "greece_named src \<longleftrightarrow> list_all (\<lambda>r. Alpha2 r = Str ''GR'' \<longrightarrow> Country r = Str ''Greece'') src"

text \<open>The frame \<^verbatim>\<open>process_road_euro_stat\<close> hands to \<^verbatim>\<open>melt\<close>, the compound column at position \<open>p\<close>.\<close>

definition reshaped_frame :: "dataframe \<Rightarrow> string list \<Rightarrow> string \<Rightarrow> nat \<Rightarrow> dataframe" where
  "reshaped_frame df cols first_col p =
     \<lparr>columns = map strip (cols @ filter (\<lambda>l. l \<noteq> first_col) (columns df)),
      rows = map2 (@) (str_split_expand (column_at p df))
               (map (drop_cells first_col (columns df)) (rows df))\<rparr>"


text \<open>The first \<open>n\<close> cells of every row exist and none is a number.\<close>

definition key_cells :: "nat \<Rightarrow> dataframe \<Rightarrow> bool" where
  "key_cells n t \<longleftrightarrow> list_all (\<lambda>r. n \<le> length r \<and> list_all (\<lambda>c. \<not> is_Num c) (take n r)) (rows t)"

text \<open>
  A cell of a row read by column name, the predicate of the three filters (with the code
  columns of the table at hand), and the columns of the three annotated tables.
\<close>

definition field :: "dataframe \<Rightarrow> string \<Rightarrow> cell list \<Rightarrow> cell" where
  "field df name r = r ! index_of name (columns df)"

definition total_2022 :: "dataframe \<Rightarrow> string list \<Rightarrow> cell list \<Rightarrow> bool" where
  "total_2022 df codes r \<longleftrightarrow>
     field df ''tra_type'' r = Str ''TOTAL'' \<and> field df ''unit'' r = Str ''THS_T''
     \<and> field df ''nst07'' r = Str ''TOTAL'' \<and> field df ''TIME_PERIOD'' r = Str ''2022''
     \<and> list_all (\<lambda>c. has_len 2 (field df c r)) codes"

definition lgtt_columns :: "string list" where
  "lgtt_columns = annotated_columns lgtt_cols ''unload_country'' ''geo_country''"

definition ugtt_columns :: "string list" where
  "ugtt_columns = annotated_columns ugtt_cols ''load_country'' ''geo_country''"

definition cross_columns :: "string list" where
  "cross_columns = annotated_columns cross_cols ''load_country'' ''unload_country''"

section \<open>Example tables\<close>

definition lgtt_two_matches :: dataframe where
  "lgtt_two_matches =
     \<lparr>columns = annotated_columns lgtt_cols ''unload_country'' ''geo_country'',
      rows =
        [[Str ''A'', Str ''TOTAL'', Str ''FR'', Str ''TOTAL'', Str ''THS_T'', Str ''BE'',
          Str ''2022'', Num 5, Str ''France'', Str ''Belgium''],
         [Str ''Q'', Str ''TOTAL'', Str ''FR'', Str ''TOTAL'', Str ''THS_T'', Str ''BE'',
          Str ''2022'', Num 7, Str ''France'', Str ''Belgium'']]\<rparr>"

definition ugtt_one_match :: dataframe where
  "ugtt_one_match =
     \<lparr>columns = annotated_columns ugtt_cols ''load_country'' ''geo_country'',
      rows =
        [[Str ''A'', Str ''TOTAL'', Str ''BE'', Str ''TOTAL'', Str ''THS_T'', Str ''FR'',
          Str ''2022'', Num 3, Str ''Belgium'', Str ''France''],
         [Str ''A'', Str ''TOTAL'', Str ''BE'', Str ''TOTAL'', Str ''THS_T'', Str ''DE'',
          Str ''2022'', Num 8, Str ''Belgium'', Str ''Germany'']]\<rparr>"

definition src_example :: "country_row list" where
  "src_example =
     [\<lparr>Country = Str ''Belgium'', Alpha2 = Str ''BE'', Alpha3 = Str ''BEL'', Numeric = Num 56\<rparr>,
      \<lparr>Country = Str ''France'', Alpha2 = Str ''FR'', Alpha3 = Str ''FRA'', Numeric = Num 250\<rparr>,
      \<lparr>Country = Str ''Greece'', Alpha2 = Str ''GR'', Alpha3 = Str ''GRC'', Numeric = Num 300\<rparr>,
      \<lparr>Country = Str ''United Kingdom of Great Britain and Northern Ireland'',
        Alpha2 = Str ''GB'', Alpha3 = Str ''GBR'', Numeric = Num 826\<rparr>]"

definition geo_example :: dataframe where
  "geo_example =
     \<lparr>columns = [''geo'', ''value''],
      rows = [[Str ''BE'', Num 1], [Str ''ZZ'', Num 2], [Str ''GB'', Num 3], [Str ''GR'', Num 4]]\<rparr>"



definition padded_a :: dataframe where
  "padded_a = \<lparr>columns = [''k'', ''2021 '', '' 2022''],
               rows = [[Str ''A,BE'', Num 1, Num 2], [Str ''A,FR'', NaN, Num 4]]\<rparr>"

definition padded_b :: dataframe where
  "padded_b = \<lparr>columns = [''k'', ''  2021'', ''2022   ''],
               rows = [[Str ''A,BE'', Num 1, Num 2], [Str ''A,FR'', NaN, Num 4]]\<rparr>"

definition padded_key :: dataframe where
  "padded_key = \<lparr>columns = ['' k'', ''2021 '', '' 2022''],
               rows = [[Str ''A,BE'', Num 1, Num 2], [Str ''A,FR'', NaN, Num 4]]\<rparr>"

definition raw_lgtt_example :: dataframe where
  "raw_lgtt_example =
     \<lparr>columns = [lgtt_fc, ''2021 '', ''2022 ''],
      rows = [[Str ''A,TOTAL,FR,TOTAL,THS_T,BE'', Num 1, Num 2],
              [Str ''A,TOTAL,EU27_2020,TOTAL,THS_T,BE'', Num 10, Num 20]]\<rparr>"

definition lgtt_annotated_example :: dataframe where
  "lgtt_annotated_example =
     \<lparr>columns = lgtt_columns,
      rows = [[Str ''A'', Str ''TOTAL'', Str ''FR'', Str ''TOTAL'', Str ''THS_T'', Str ''BE'',
               Str ''2021'', Num 1, Str ''France'', Str ''Belgium''],
              [Str ''A'', Str ''TOTAL'', Str ''EU27_2020'', Str ''TOTAL'', Str ''THS_T'', Str ''BE'',
               Str ''2021'', Num 10, NaN, Str ''Belgium''],
              [Str ''A'', Str ''TOTAL'', Str ''FR'', Str ''TOTAL'', Str ''THS_T'', Str ''BE'',
               Str ''2022'', Num 2, Str ''France'', Str ''Belgium''],
              [Str ''A'', Str ''TOTAL'', Str ''EU27_2020'', Str ''TOTAL'', Str ''THS_T'', Str ''BE'',
               Str ''2022'', Num 20, NaN, Str ''Belgium'']]\<rparr>"

definition raw_ugtt_example :: dataframe where
  "raw_ugtt_example =
     \<lparr>columns = [ugtt_fc, ''2022 ''],
      rows = [[Str ''A,TOTAL,BE,TOTAL,THS_T,FR'', Num 3],
              [Str ''A,TOTAL,BE,GT01,THS_T,FR'', Num 4]]\<rparr>"

definition ugtt_annotated_example :: dataframe where
  "ugtt_annotated_example =
     \<lparr>columns = ugtt_columns,
      rows = [[Str ''A'', Str ''TOTAL'', Str ''BE'', Str ''TOTAL'', Str ''THS_T'', Str ''FR'',
               Str ''2022'', Num 3, Str ''Belgium'', Str ''France''],
              [Str ''A'', Str ''TOTAL'', Str ''BE'', Str ''GT01'', Str ''THS_T'', Str ''FR'',
               Str ''2022'', Num 4, Str ''Belgium'', Str ''France'']]\<rparr>"

definition raw_cross_example :: dataframe where
  "raw_cross_example =
     \<lparr>columns = [cross_fc, ''2022 ''],
      rows = [[Str ''A,TOTAL,BE,FR,TOTAL,THS_T,DE'', Num 1.5],
              [Str ''A,TOTAL,BE,EU27_2020,TOTAL,THS_T,DE'', Num 9]]\<rparr>"

definition cross_annotated_example :: dataframe where
  "cross_annotated_example =
     \<lparr>columns = cross_columns,
      rows = [[Str ''A'', Str ''TOTAL'', Str ''BE'', Str ''FR'', Str ''TOTAL'', Str ''THS_T'', Str ''DE'',
               Str ''2022'', Num 1.5, Str ''Belgium'', Str ''France''],
              [Str ''A'', Str ''TOTAL'', Str ''BE'', Str ''EU27_2020'', Str ''TOTAL'', Str ''THS_T'',
               Str ''DE'', Str ''2022'', Num 9, Str ''Belgium'', NaN]]\<rparr>"

section \<open>Properties of the country code table\<close>

lemma name_pass_rowwise:
  "fold set_country_where_code country_updates t = map correct_name t"
  by (simp add: country_updates_def set_country_where_code_def correct_name_def)

lemma code_pass_rowwise:
  "fold set_code_where_country code_updates t = map correct_code t"
  by (simp add: code_updates_def set_code_where_country_def correct_code_def)

lemma apply_corrections_rowwise:
  "apply_corrections t = map (correct_code \<circ> correct_name) t"
  by (simp add: apply_corrections_def name_pass_rowwise code_pass_rowwise)

lemma correct_row_idem:
  "correct_code (correct_name (correct_code (correct_name r))) = correct_code (correct_name r)"
  by (simp add: correct_code_def correct_name_def)

lemma correct_row_code_cases:
  "Alpha2 (correct_code (correct_name r)) = Alpha2 r
   \<or> Alpha2 (correct_code (correct_name r)) = Str ''UK''
   \<or> Alpha2 (correct_code (correct_name r)) = Str ''EL''"
  by (simp add: correct_code_def correct_name_def)

lemma correct_row_GB:
  "Alpha2 r = Str ''GB'' \<Longrightarrow>
     Country (correct_code (correct_name r)) = Str ''United Kingdom''
     \<and> Alpha2 (correct_code (correct_name r)) = Str ''UK''"
  by (simp add: correct_code_def correct_name_def)

lemma correct_row_not_GB: "Alpha2 (correct_code (correct_name r)) \<noteq> Str ''GB''"
  by (simp add: correct_code_def correct_name_def)

lemma correct_row_not_GR:
  "(Alpha2 r = Str ''GR'' \<longrightarrow> Country r = Str ''Greece'') \<Longrightarrow>
     Alpha2 (correct_code (correct_name r)) \<noteq> Str ''GR''"
  by (auto simp add: correct_code_def correct_name_def)

lemma correct_row_XK:
  "Alpha2 (correct_code (correct_name r)) = Str ''XK'' \<Longrightarrow> Alpha2 r = Str ''XK''"
  by (auto simp add: correct_code_def correct_name_def split: if_splits)

lemma length_apply_corrections: "length (apply_corrections t) = length t"
  by (simp add: apply_corrections_rowwise)

lemma nth_get_country_codes:
  "i < length src \<Longrightarrow> get_country_codes src ! i = correct_code (correct_name (src ! i))"
  by (simp add: get_country_codes_def apply_corrections_rowwise nth_append)

lemma corrected_no_XK:
  "\<forall>r \<in> set src. Alpha2 r \<noteq> Str ''XK'' \<Longrightarrow>
     filter (\<lambda>r. Alpha2 r = Str ''XK'') (apply_corrections src) = []"
  by (auto simp add: apply_corrections_rowwise filter_empty_conv dest: correct_row_XK)

text \<open>
  C3. The name rewrites run before the code rewrites: a row of the reference table whose
  2-letter code is \<open>GB\<close> is first named \<open>United Kingdom\<close> and, having that name, is
  then recoded, so in the table \<^verbatim>\<open>get_country_codes\<close> returns the row at the same
  position has name \<open>United Kingdom\<close> and code \<open>UK\<close>, its other fields unchanged.
\<close>

theorem get_country_codes_GB_becomes_UK:
  assumes "i < length src" and "Alpha2 (src ! i) = Str ''GB''"
  shows "apply_corrections src =
           fold set_code_where_country code_updates
             (fold set_country_where_code country_updates src)
         \<and> fold set_country_where_code country_updates src ! i =
             (src ! i)\<lparr>Country := Str ''United Kingdom''\<rparr>
         \<and> get_country_codes src ! i =
             (src ! i)\<lparr>Country := Str ''United Kingdom'', Alpha2 := Str ''UK''\<rparr>"
proof (intro conjI)
  show "apply_corrections src =
          fold set_code_where_country code_updates
            (fold set_country_where_code country_updates src)"
    by (simp add: apply_corrections_def)
  show "fold set_country_where_code country_updates src ! i =
          (src ! i)\<lparr>Country := Str ''United Kingdom''\<rparr>"
    using assms by (simp add: name_pass_rowwise correct_name_def)
  show "get_country_codes src ! i =
          (src ! i)\<lparr>Country := Str ''United Kingdom'', Alpha2 := Str ''UK''\<rparr>"
    using assms by (simp add: nth_get_country_codes correct_name_def correct_code_def)
qed

theorem get_country_codes_GB_becomes_UK_witness:
  "get_country_codes
     [\<lparr>Country = Str ''Greece'', Alpha2 = Str ''GR'', Alpha3 = Str ''GRC'', Numeric = Num 300\<rparr>,
      \<lparr>Country = Str ''United Kingdom of Great Britain and Northern Ireland'',
        Alpha2 = Str ''GB'', Alpha3 = Str ''GBR'', Numeric = Num 826\<rparr>] ! 1 =
   \<lparr>Country = Str ''United Kingdom'', Alpha2 = Str ''UK'', Alpha3 = Str ''GBR'', Numeric = Num 826\<rparr>"
proof -
  let ?src = "[\<lparr>Country = Str ''Greece'', Alpha2 = Str ''GR'', Alpha3 = Str ''GRC'', Numeric = Num 300\<rparr>,
      \<lparr>Country = Str ''United Kingdom of Great Britain and Northern Ireland'',
        Alpha2 = Str ''GB'', Alpha3 = Str ''GBR'', Numeric = Num 826\<rparr>]"
  have h1: "1 < length ?src" by simp
  have h2: "Alpha2 (?src ! 1) = Str ''GB''" by simp
  from get_country_codes_GB_becomes_UK [OF h1 h2]
  have "get_country_codes ?src ! 1 =
          (?src ! 1)\<lparr>Country := Str ''United Kingdom'', Alpha2 := Str ''UK''\<rparr>"
    by blast
  then show ?thesis by simp
qed

text \<open>
  C6. The correction step (the name rewrites followed by the code rewrites) is
  idempotent: run on an already corrected table it changes nothing.
\<close>

theorem apply_corrections_idempotent:
  "apply_corrections (apply_corrections t) = apply_corrections t"
  by (simp add: apply_corrections_rowwise correct_row_idem)

text \<open>
  C7. \<^verbatim>\<open>get_country_codes\<close> appends exactly one row, Kosovo with codes \<open>XK\<close>,
  \<open>XKO\<close> and 9999, after the corrected rows; when no row of the reference table has
  the 2-letter code \<open>XK\<close>, exactly one row of the returned table has it.
\<close>

theorem get_country_codes_one_XK:
  assumes "\<forall>r \<in> set src. Alpha2 r \<noteq> Str ''XK''"
  shows "get_country_codes src =
           apply_corrections src @
             [\<lparr>Country = Str ''Kosovo'', Alpha2 = Str ''XK'', Alpha3 = Str ''XKO'', Numeric = Num 9999\<rparr>]
         \<and> length (get_country_codes src) = length src + 1
         \<and> length (filter (\<lambda>r. Alpha2 r = Str ''XK'') (get_country_codes src)) = 1"
  using corrected_no_XK [OF assms]
  by (simp add: get_country_codes_def new_rows_def length_apply_corrections)

theorem get_country_codes_one_XK_witness:
  "length (filter (\<lambda>r. Alpha2 r = Str ''XK'')
     (get_country_codes
        [\<lparr>Country = Str ''Belgium'', Alpha2 = Str ''BE'', Alpha3 = Str ''BEL'', Numeric = Num 56\<rparr>,
         \<lparr>Country = Str ''France'', Alpha2 = Str ''FR'', Alpha3 = Str ''FRA'', Numeric = Num 250\<rparr>])) = 1"
proof -
  have h: "\<forall>r \<in> set
      [\<lparr>Country = Str ''Belgium'', Alpha2 = Str ''BE'', Alpha3 = Str ''BEL'', Numeric = Num 56\<rparr>,
       \<lparr>Country = Str ''France'', Alpha2 = Str ''FR'', Alpha3 = Str ''FRA'', Numeric = Num 250\<rparr>].
      Alpha2 r \<noteq> Str ''XK''"
    by simp
  from get_country_codes_one_XK [OF h] show ?thesis by blast
qed

section \<open>Masks, lookups and sums\<close>

lemma and_then_Inr [simp]: "and_then (Inr x) f = f x"
  by (simp add: and_then_def)

lemma and_then_Inl [simp]: "and_then (Inl e) f = Inl e"
  by (simp add: and_then_def)

lemma select_by_predicate:
  "map fst (filter snd (zip xs (map P xs))) = filter P xs"
  by (induction xs) auto

lemma mask_and_map:
  "mask_and (map P xs) (map Q xs) = map (\<lambda>x. P x \<and> Q x) xs"
  by (induction xs) (auto simp: mask_and_def)

lemma eq_str_column:
  "eq_str (column_at p df) s = map (\<lambda>r. r ! p = Str s) (rows df)"
  by (simp add: eq_str_def column_at_def)

lemma select_rows_predicate:
  "select_rows df (map P (rows df)) = df\<lparr>rows := filter P (rows df)\<rparr>"
  by (simp add: select_rows_def select_by_predicate)

lemma getattr_column_unique:
  "column_positions name (columns df) = [p] \<Longrightarrow> getattr_column df name = Inr (column_at p df)"
  by (simp add: getattr_column_def)

lemma columns_select_rows: "columns (select_rows t m) = columns t"
  by (simp add: select_rows_def)

lemma first_match:
  assumes "column_positions a (columns t) = [g]"
    and "column_positions b (columns t) = [u]"
    and "column_positions ''value'' (columns t) = [v]"
  shows "and_then (getattr_column t a) (\<lambda>ca.
         and_then (getattr_column t b) (\<lambda>cb.
         and_then (getattr_column (select_rows t (mask_and (eq_str ca x) (eq_str cb y))) ''value'')
           first_value)) =
         first_value (map (\<lambda>r. r ! v) (filter (\<lambda>r. r ! g = Str x \<and> r ! u = Str y) (rows t)))"
proof -
  let ?sel = "select_rows t (mask_and (eq_str (column_at g t) x) (eq_str (column_at u t) y))"
  have sel: "?sel = t\<lparr>rows := filter (\<lambda>r. r ! g = Str x \<and> r ! u = Str y) (rows t)\<rparr>"
    by (simp add: eq_str_column mask_and_map select_rows_predicate)
  have "getattr_column ?sel ''value'' = Inr (column_at v ?sel)"
    using assms(3) by (simp add: getattr_column_def columns_select_rows)
  also have "column_at v ?sel =
      map (\<lambda>r. r ! v) (filter (\<lambda>r. r ! g = Str x \<and> r ! u = Str y) (rows t))"
    by (simp only: sel) (simp add: column_at_def)
  finally show ?thesis
    using assms(1,2) by (simp add: getattr_column_unique)
qed



text \<open>
  C1, as amended. In each of the two unidirectional tables the Belgium/France lookup
  selects the matching rows, reads their value column and takes element 0: it raises
  IndexError exactly when no row matches, and otherwise returns the value of the first
  matching row, whether one row matches or several.
\<close>

theorem be_fr_lookup_takes_first_match:
  assumes "column_positions ''geo_country'' (columns lgtt) = [g]"
    and "column_positions ''unload_country'' (columns lgtt) = [u]"
    and "column_positions ''value'' (columns lgtt) = [v]"
    and "column_positions ''load_country'' (columns ugtt) = [l']"
    and "column_positions ''geo_country'' (columns ugtt) = [g']"
    and "column_positions ''value'' (columns ugtt) = [v']"
  shows "(matching_rows g ''Belgium'' u ''France'' lgtt = [] \<longrightarrow> lgtt_be_fr lgtt = Inl IndexError)
       \<and> (\<forall>r rest. matching_rows g ''Belgium'' u ''France'' lgtt = r # rest \<longrightarrow>
             lgtt_be_fr lgtt = Inr (r ! v))
       \<and> (matching_rows l' ''Belgium'' g' ''France'' ugtt = [] \<longrightarrow> ugtt_be_fr ugtt = Inl IndexError)
       \<and> (\<forall>r rest. matching_rows l' ''Belgium'' g' ''France'' ugtt = r # rest \<longrightarrow>
             ugtt_be_fr ugtt = Inr (r ! v'))"
proof -
  have a: "lgtt_be_fr lgtt =
      first_value (map (\<lambda>r. r ! v) (matching_rows g ''Belgium'' u ''France'' lgtt))"
    unfolding lgtt_be_fr_def matching_rows_def by (rule first_match [OF assms(1,2,3)])
  have b: "ugtt_be_fr ugtt =
      first_value (map (\<lambda>r. r ! v') (matching_rows l' ''Belgium'' g' ''France'' ugtt))"
    unfolding ugtt_be_fr_def matching_rows_def by (rule first_match [OF assms(4,5,6)])
  show ?thesis
    by (simp add: a b first_value_def)
qed

lemma lgtt_two_matches_positions:
  "column_positions ''geo_country'' (columns lgtt_two_matches) = [9]"
  "column_positions ''unload_country'' (columns lgtt_two_matches) = [8]"
  "column_positions ''value'' (columns lgtt_two_matches) = [7]"
  by code_simp+

lemma ugtt_one_match_positions:
  "column_positions ''load_country'' (columns ugtt_one_match) = [8]"
  "column_positions ''geo_country'' (columns ugtt_one_match) = [9]"
  "column_positions ''value'' (columns ugtt_one_match) = [7]"
  by code_simp+

lemma lgtt_two_matches_rows:
  "matching_rows 9 ''Belgium'' 8 ''France'' lgtt_two_matches = rows lgtt_two_matches"
  by code_simp

theorem be_fr_lookup_takes_first_match_witness:
  "lgtt_be_fr lgtt_two_matches = Inr (Num 5) \<and> ugtt_be_fr ugtt_one_match = Inr (Num 3)"
proof -
  have m1: "matching_rows 9 ''Belgium'' 8 ''France'' lgtt_two_matches =
      hd (rows lgtt_two_matches) # tl (rows lgtt_two_matches)"
    by code_simp
  have m2: "matching_rows 8 ''Belgium'' 9 ''France'' ugtt_one_match =
      hd (rows ugtt_one_match) # []"
    by code_simp
  have v1: "hd (rows lgtt_two_matches) ! 7 = Num 5" by (simp add: lgtt_two_matches_def)
  have v2: "hd (rows ugtt_one_match) ! 7 = Num 3" by (simp add: ugtt_one_match_def)
  from be_fr_lookup_takes_first_match [OF lgtt_two_matches_positions ugtt_one_match_positions]
    m1 m2 v1 v2
  show ?thesis by metis
qed

text \<open>
  C1 as stated fails: with two matching rows (the same flow reported at two
  frequencies) the lookup does not fail, it returns the first value.
\<close>

theorem be_fr_lookup_several_matches:
  "length (matching_rows 9 ''Belgium'' 8 ''France'' lgtt_two_matches) = 2
   \<and> lgtt_be_fr lgtt_two_matches = Inr (Num 5)"
  by code_simp

section \<open>The left join with the country table\<close>

lemma country_frame_key: "column_positions ''Alpha-2 code'' (columns (country_frame cc)) = [1]"
  by (simp add: country_frame_def column_positions_def)

lemma add_suffix_disjoint: "set cs \<inter> set other = {} \<Longrightarrow> add_suffix sfx other cs = cs"
  by (induction cs) (auto simp: add_suffix_def)

lemma no_suffix_clash: "\<not> suffix_clash cs cs"
  by (simp add: suffix_clash_def list_ex_iff)

lemma country_key_not_numeric:
  "\<not> numeric_column (column_at 1 (country_frame (get_country_codes src)))"
  by (simp add: numeric_column_def column_at_def country_frame_def get_country_codes_def
      new_rows_def list_ex_iff)

lemma country_key_has_string:
  "list_ex is_Str (column_at 1 (country_frame (get_country_codes src)))"
  by (simp add: column_at_def country_frame_def get_country_codes_def new_rows_def list_ex_iff)

lemma drop_cells_append:
  "length l = length cs \<Longrightarrow>
     drop_cells c (cs @ ds) (l @ m) = drop_cells c cs l @ drop_cells c ds m"
  by (simp add: drop_cells_def)

lemma drop_cells_absent:
  "length l = length cs \<Longrightarrow> c \<notin> set cs \<Longrightarrow> drop_cells c cs l = l"
proof (induction cs arbitrary: l)
  case Nil
  then show ?case by (simp add: drop_cells_def)
next
  case (Cons a cs)
  then obtain x xs where l: "l = x # xs" by (cases l) auto
  with Cons show ?case by (auto simp add: drop_cells_def)
qed

lemma column_positions_singleton:
  assumes "column_positions c cs = [p]"
  shows "p < length cs \<and> cs ! p = c"
proof -
  have "p \<in> set (column_positions c cs)" using assms by simp
  then show ?thesis by (simp add: column_positions_def)
qed

lemma merged_rows:
  "(case filter (\<lambda>r. r ! Suc 0 = k) (rows (country_frame cc)) of
      [] \<Rightarrow> [l @ [NaN, NaN]]
    | m # ms \<Rightarrow> (l @ m) # map ((@) l) ms) =
   (case filter (\<lambda>e. Alpha2 e = k) cc of
      [] \<Rightarrow> [l @ [NaN, NaN]]
    | m # ms \<Rightarrow> (l @ [Country m, Alpha2 m]) # map (\<lambda>e. l @ [Country e, Alpha2 e]) ms)"
  by (simp add: country_frame_def filter_map comp_def split: list.splits)

lemma merge_left_country:
  assumes pos: "column_positions merge_on (columns df) = [p]"
    and c1: "''Country'' \<notin> set (columns df)"
    and c2: "''Alpha-2 code'' \<notin> set (columns df)"
  shows "merge_left df (country_frame cc) merge_on ''Alpha-2 code'' =
     (if incompatible_keys (column_at p df) (column_at 1 (country_frame cc)) then Inl ValueError
      else Inr \<lparr>columns = columns df @ [''Country'', ''Alpha-2 code''],
        rows = concat (map (\<lambda>l.
          case filter (\<lambda>e. Alpha2 e = l ! p) cc of
            [] \<Rightarrow> [l @ [NaN, NaN]]
          | m # ms \<Rightarrow> map (\<lambda>e. l @ [Country e, Alpha2 e]) (m # ms)) (rows df))\<rparr>)"
proof -
  have "p < length (columns df) \<and> columns df ! p = merge_on"
    using pos by (rule column_positions_singleton)
  then have ne: "merge_on \<noteq> ''Alpha-2 code''"
    using c2 by (metis nth_mem)
  have d1: "add_suffix ''_x'' [''Country'', ''Alpha-2 code''] (columns df) = columns df"
    using c1 c2 by (intro add_suffix_disjoint) auto
  have d2: "add_suffix ''_y'' (columns df) [''Country'', ''Alpha-2 code''] =
      [''Country'', ''Alpha-2 code'']"
    using c1 c2 by (intro add_suffix_disjoint) auto
  have cols: "columns (country_frame cc) = [''Country'', ''Alpha-2 code'']"
    by (simp add: country_frame_def)
  show ?thesis
    unfolding merge_left_def pos country_frame_key
    using ne
    by (simp add: Let_def cols d1 d2 no_suffix_clash cong: list.case_cong if_cong)
      (simp add: merged_rows)
qed

lemma map_rename_absent: "old \<notin> set cs \<Longrightarrow> map (\<lambda>c. if c = old then new else c) cs = cs"
  by (induction cs) auto

lemma drop_code_cell:
  assumes "length l = length cs" and "''Alpha-2 code'' \<notin> set cs" and "new \<noteq> ''Alpha-2 code''"
  shows "drop_cells ''Alpha-2 code'' (cs @ [new, ''Alpha-2 code'']) (l @ [n, k]) = l @ [n]"
proof -
  have "drop_cells ''Alpha-2 code'' (cs @ [new, ''Alpha-2 code'']) (l @ [n, k]) =
      drop_cells ''Alpha-2 code'' cs l @ drop_cells ''Alpha-2 code'' [new, ''Alpha-2 code''] [n, k]"
    using assms(1) by (rule drop_cells_append)
  also have "drop_cells ''Alpha-2 code'' cs l = l"
    using assms(1,2) by (rule drop_cells_absent)
  also have "drop_cells ''Alpha-2 code'' [new, ''Alpha-2 code''] [n, k] = [n]"
    using assms(3) by (simp add: drop_cells_def)
  finally show ?thesis .
qed

lemma drop_code_annotated:
  assumes "length l = length cs" and "''Alpha-2 code'' \<notin> set cs" and "new \<noteq> ''Alpha-2 code''"
  shows "map (drop_cells ''Alpha-2 code'' (cs @ [new, ''Alpha-2 code'']))
           (case filter (\<lambda>e. Alpha2 e = l ! p) cc of
              [] \<Rightarrow> [l @ [NaN, NaN]]
            | m # ms \<Rightarrow> map (\<lambda>e. l @ [Country e, Alpha2 e]) (m # ms)) =
         annotate cc p l"
  by (simp add: annotate_def drop_code_cell [OF assms] split: list.splits)

lemma merge_and_rename_rows:
  assumes pos: "column_positions merge_on (columns df) = [p]"
    and c1: "''Country'' \<notin> set (columns df)"
    and c2: "''Alpha-2 code'' \<notin> set (columns df)"
    and nn: "new \<noteq> ''Alpha-2 code''"
    and wf: "wf_frame df"
  shows "merge_and_rename src df merge_on new =
     (if numeric_column (column_at p df) then Inl ValueError
      else Inr \<lparr>columns = columns df @ [new],
                rows = concat (map (annotate (get_country_codes src) p) (rows df))\<rparr>)"
proof -
  let ?cc = "get_country_codes src"
  have inc: "incompatible_keys (column_at p df) (column_at 1 (country_frame ?cc)) =
      numeric_column (column_at p df)"
    using country_key_not_numeric [of src] country_key_has_string [of src]
    by (simp add: incompatible_keys_def)
  have rows: "map (drop_cells ''Alpha-2 code'' (columns df @ [new, ''Alpha-2 code'']))
      (concat (map (\<lambda>l. case filter (\<lambda>e. Alpha2 e = l ! p) ?cc of
            [] \<Rightarrow> [l @ [NaN, NaN]]
          | m # ms \<Rightarrow> map (\<lambda>e. l @ [Country e, Alpha2 e]) (m # ms)) (rows df))) =
      concat (map (annotate ?cc p) (rows df))"
  proof -
    have "\<forall>l \<in> set (rows df). length l = length (columns df)"
      using wf by (simp add: wf_frame_def list_all_iff)
    then show ?thesis
      by (simp add: map_concat comp_def drop_code_annotated [OF _ c2 nn] cong: map_cong)
  qed
  show ?thesis
    unfolding merge_and_rename_def Let_def merge_left_country [OF pos c1 c2] inc
    using c1 c2 nn
    by (auto simp add: rename_label_def drop_label_def map_rename_absent rows filter_id_conv)
qed

lemma annotate_members:
  "row \<in> set (annotate cc p r) \<longleftrightarrow>
     (\<exists>e \<in> set cc. Alpha2 e = r ! p \<and> row = r @ [Country e])
     \<or> ((\<forall>e \<in> set cc. Alpha2 e \<noteq> r ! p) \<and> row = r @ [NaN])"
proof (cases "filter (\<lambda>e. Alpha2 e = r ! p) cc")
  case Nil
  then have "\<forall>e \<in> set cc. Alpha2 e \<noteq> r ! p"
    by (simp add: filter_empty_conv)
  with Nil show ?thesis by (auto simp add: annotate_def)
next
  case (Cons m ms)
  then have s: "set (m # ms) = {e \<in> set cc. Alpha2 e = r ! p}"
    by (metis set_filter)
  then have "m \<in> set cc \<and> Alpha2 m = r ! p" by auto
  with Cons s show ?thesis by (auto simp add: annotate_def)
qed

lemma annotated_rows_members:
  "row \<in> set (concat (map (annotate cc p) rs)) \<longleftrightarrow>
     (\<exists>r \<in> set rs. (\<exists>e \<in> set cc. Alpha2 e = r ! p \<and> row = r @ [Country e])
        \<or> ((\<forall>e \<in> set cc. Alpha2 e \<noteq> r ! p) \<and> row = r @ [NaN]))"
  by (simp add: annotate_members)

lemma annotated_own_row:
  assumes "r @ [name] \<in> set (concat (map (annotate cc p) rs))"
  shows "(\<exists>e \<in> set cc. Alpha2 e = r ! p \<and> name = Country e)
     \<or> ((\<forall>e \<in> set cc. Alpha2 e \<noteq> r ! p) \<and> name = NaN)"
proof -
  from assms obtain r' where r': "r' \<in> set rs" "r @ [name] \<in> set (annotate cc p r')"
    by auto
  from r'(2) have "(\<exists>e \<in> set cc. Alpha2 e = r' ! p \<and> r @ [name] = r' @ [Country e])
     \<or> ((\<forall>e \<in> set cc. Alpha2 e \<noteq> r' ! p) \<and> r @ [name] = r' @ [NaN])"
    by (simp only: annotate_members)
  then show ?thesis by auto
qed

lemma annotated_row_present:
  assumes "r \<in> set rs"
  shows "(\<forall>e \<in> set cc. Alpha2 e = r ! p \<longrightarrow> r @ [Country e] \<in> set (concat (map (annotate cc p) rs)))
     \<and> ((\<forall>e \<in> set cc. Alpha2 e \<noteq> r ! p) \<longrightarrow> r @ [NaN] \<in> set (concat (map (annotate cc p) rs)))"
proof (intro conjI ballI impI)
  fix e assume "e \<in> set cc" "Alpha2 e = r ! p"
  then have "r @ [Country e] \<in> set (annotate cc p r)"
    by (subst annotate_members) blast
  with assms show "r @ [Country e] \<in> set (concat (map (annotate cc p) rs))" by auto
next
  assume "\<forall>e \<in> set cc. Alpha2 e \<noteq> r ! p"
  then have "r @ [NaN] \<in> set (annotate cc p r)"
    by (subst annotate_members) blast
  with assms show "r @ [NaN] \<in> set (concat (map (annotate cc p) rs))" by auto
qed

lemma annotated_row_origin:
  assumes "row \<in> set (concat (map (annotate cc p) rs))"
  shows "\<exists>r \<in> set rs. \<exists>name. row = r @ [name]"
proof -
  from assms obtain r where r: "r \<in> set rs" "row \<in> set (annotate cc p r)" by auto
  from r(2) have "\<exists>name. row = r @ [name]"
    by (subst (asm) annotate_members) blast
  with r(1) show ?thesis by blast
qed


lemma geo_example_facts:
  "column_positions ''geo'' (columns geo_example) = [0]"
  "''Country'' \<notin> set (columns geo_example)"
  "''Alpha-2 code'' \<notin> set (columns geo_example)"
  "''geo_country'' \<noteq> ''Alpha-2 code''"
  "wf_frame geo_example"
  "\<not> numeric_column (column_at 0 geo_example)"
  by code_simp+



lemma corrected_codes_no_GB: "\<forall>e \<in> set (get_country_codes src). Alpha2 e \<noteq> Str ''GB''"
  by (auto simp add: get_country_codes_def new_rows_def apply_corrections_rowwise correct_row_not_GB)

lemma corrected_codes_no_GR:
  assumes "greece_named src"
  shows "\<forall>e \<in> set (get_country_codes src). Alpha2 e \<noteq> Str ''GR''"
proof -
  have "\<forall>r \<in> set src. Alpha2 r = Str ''GR'' \<longrightarrow> Country r = Str ''Greece''"
    using assms by (simp add: greece_named_def list_all_iff)
  then have "\<forall>r \<in> set src. Alpha2 (correct_code (correct_name r)) \<noteq> Str ''GR''"
    using correct_row_not_GR by blast
  then show ?thesis
    by (auto simp add: get_country_codes_def new_rows_def apply_corrections_rowwise)
qed

text \<open>
  C10. No row of the table \<^verbatim>\<open>get_country_codes\<close> returns has the 2-letter code
  \<open>GB\<close>, and none has \<open>GR\<close> when every \<open>GR\<close> row of the reference table is named
  \<open>Greece\<close>. Hence \<^verbatim>\<open>merge_and_rename\<close> (on a table without columns \<open>Country\<close> and
  \<open>Alpha-2 code\<close>, as the tidy tables are) gives every input row with code \<open>GB\<close>, or
  with code \<open>GR\<close> under that condition, a missing country name and no other.
\<close>

theorem no_GB_or_GR_after_corrections:
  assumes pos: "column_positions merge_on (columns df) = [p]"
    and c1: "''Country'' \<notin> set (columns df)"
    and c2: "''Alpha-2 code'' \<notin> set (columns df)"
    and nn: "new \<noteq> ''Alpha-2 code''"
    and wf: "wf_frame df"
    and key: "\<not> numeric_column (column_at p df)"
  shows "(\<forall>e \<in> set (get_country_codes src). Alpha2 e \<noteq> Str ''GB'')
     \<and> (greece_named src \<longrightarrow> (\<forall>e \<in> set (get_country_codes src). Alpha2 e \<noteq> Str ''GR''))
     \<and> (\<exists>out. merge_and_rename src df merge_on new = Inr out
          \<and> (\<forall>r \<in> set (rows df). r ! p = Str ''GB'' \<or> (r ! p = Str ''GR'' \<and> greece_named src) \<longrightarrow>
                r @ [NaN] \<in> set (rows out)
                \<and> (\<forall>name. r @ [name] \<in> set (rows out) \<longrightarrow> name = NaN)))"
proof -
  let ?cc = "get_country_codes src"
  let ?rs = "concat (map (annotate ?cc p) (rows df))"
  let ?out = "\<lparr>columns = columns df @ [new], rows = ?rs\<rparr>"
  have res: "merge_and_rename src df merge_on new = Inr ?out"
    using merge_and_rename_rows [OF pos c1 c2 nn wf, of src] key by simp
  have a: "\<forall>e \<in> set ?cc. Alpha2 e \<noteq> Str ''GB''"
    by (rule corrected_codes_no_GB)
  have b: "greece_named src \<longrightarrow> (\<forall>e \<in> set ?cc. Alpha2 e \<noteq> Str ''GR'')"
    using corrected_codes_no_GR by blast
  have c: "\<forall>r \<in> set (rows df). r ! p = Str ''GB'' \<or> (r ! p = Str ''GR'' \<and> greece_named src) \<longrightarrow>
      r @ [NaN] \<in> set ?rs \<and> (\<forall>name. r @ [name] \<in> set ?rs \<longrightarrow> name = NaN)"
  proof (intro ballI impI)
    fix r assume r: "r \<in> set (rows df)"
      and code: "r ! p = Str ''GB'' \<or> (r ! p = Str ''GR'' \<and> greece_named src)"
    from code a b have none: "\<forall>e \<in> set ?cc. Alpha2 e \<noteq> r ! p" by auto
    have 1: "r @ [NaN] \<in> set ?rs"
      using annotated_row_present [OF r, of ?cc p] none by blast
    have 2: "\<forall>name. r @ [name] \<in> set ?rs \<longrightarrow> name = NaN"
      using annotated_own_row [of r _ ?cc p "rows df"] none by blast
    from 1 2 show "r @ [NaN] \<in> set ?rs \<and> (\<forall>name. r @ [name] \<in> set ?rs \<longrightarrow> name = NaN)"
      by blast
  qed
  show ?thesis
    apply (intro conjI a b)
    apply (rule exI [of _ ?out])
    apply (simp only: res dataframe.simps)
    using c apply blast
    done
qed

theorem no_GB_or_GR_after_corrections_witness:
  "greece_named src_example
   \<and> map Alpha2 (get_country_codes src_example) = [Str ''BE'', Str ''FR'', Str ''EL'', Str ''UK'', Str ''XK'']
   \<and> (\<exists>out. merge_and_rename src_example geo_example ''geo'' ''geo_country'' = Inr out
        \<and> [Str ''GB'', Num 3, NaN] \<in> set (rows out) \<and> [Str ''GR'', Num 4, NaN] \<in> set (rows out))"
proof -
  have g: "greece_named src_example" by code_simp
  have codes: "map Alpha2 (get_country_codes src_example) =
      [Str ''BE'', Str ''FR'', Str ''EL'', Str ''UK'', Str ''XK'']"
    by code_simp
  have r1: "[Str ''GB'', Num 3] \<in> set (rows geo_example)" "[Str ''GB'', Num 3] ! 0 = Str ''GB''"
    by (simp_all add: geo_example_def)
  have r2: "[Str ''GR'', Num 4] \<in> set (rows geo_example)" "[Str ''GR'', Num 4] ! 0 = Str ''GR''"
    by (simp_all add: geo_example_def)
  from no_GB_or_GR_after_corrections [OF geo_example_facts, of src_example]
  obtain out where out: "merge_and_rename src_example geo_example ''geo'' ''geo_country'' = Inr out"
    and all: "\<forall>r \<in> set (rows geo_example).
       r ! 0 = Str ''GB'' \<or> (r ! 0 = Str ''GR'' \<and> greece_named src_example) \<longrightarrow>
         r @ [NaN] \<in> set (rows out) \<and> (\<forall>name. r @ [name] \<in> set (rows out) \<longrightarrow> name = NaN)"
    by blast
  from all r1 have "[Str ''GB'', Num 3] @ [NaN] \<in> set (rows out)" by blast
  moreover from all r2 g have "[Str ''GR'', Num 4] @ [NaN] \<in> set (rows out)" by blast
  ultimately show ?thesis using g codes out by simp
qed

section \<open>The cross-table aggregation\<close>





section \<open>The reshaper and header padding\<close>

lemma dropWhile_fixed: "xs = [] \<or> \<not> P (hd xs) \<Longrightarrow> dropWhile P xs = xs"
  by (cases xs) auto

lemma dropWhile_head: "dropWhile P xs = [] \<or> \<not> P (hd (dropWhile P xs))"
  using hd_dropWhile [of P xs] by blast

lemma strip_idem: "strip (strip s) = strip s"
proof -
  let ?t = "dropWhile is_space s"
  let ?u = "dropWhile is_space (rev ?t)"
  have t: "?t = [] \<or> \<not> is_space (hd ?t)" by (rule dropWhile_head)
  have u: "?u = [] \<or> \<not> is_space (hd ?u)" by (rule dropWhile_head)
  have front: "rev ?u = [] \<or> \<not> is_space (hd (rev ?u))"
  proof (cases "?u = []")
    case True
    then show ?thesis by simp
  next
    case False
    then have tne: "?t \<noteq> []" by (metis dropWhile.simps(1) rev.simps(1))
    with t have nt: "\<not> is_space (hd ?t)" by blast
    obtain ys where ys: "rev ?t = ys @ ?u"
      by (metis takeWhile_dropWhile_id)
    then have "?t = rev ?u @ rev ys" by (metis rev_append rev_rev_ident)
    with False have "hd ?t = hd (rev ?u)" by (metis hd_append2 rev_is_Nil_conv)
    with nt show ?thesis by simp
  qed
  have 1: "dropWhile is_space (rev ?u) = rev ?u"
    using front by (rule dropWhile_fixed)
  have 2: "dropWhile is_space (rev (rev ?u)) = ?u"
    using u by (simp add: dropWhile_fixed)
  show ?thesis
    unfolding strip_def by (simp only: 1 2)
qed

lemma positions_by_flags:
  assumes "map (\<lambda>c. c = fc) cs1 = map (\<lambda>c. c = fc) cs2"
  shows "column_positions fc cs1 = column_positions fc cs2"
proof -
  have len: "length cs1 = length cs2"
    using assms by (rule map_eq_imp_length_eq)
  have "\<forall>i < length cs1. (cs1 ! i = fc) = (cs2 ! i = fc)"
  proof (intro allI impI)
    fix i assume i: "i < length cs1"
    have "map (\<lambda>c. c = fc) cs1 ! i = map (\<lambda>c. c = fc) cs2 ! i" using assms by simp
    with i len show "(cs1 ! i = fc) = (cs2 ! i = fc)" by simp
  qed
  then show ?thesis
    unfolding column_positions_def len [symmetric]
    by (intro filter_cong) auto
qed

lemma drop_cells_by_flags:
  "map (\<lambda>c. c = fc) cs1 = map (\<lambda>c. c = fc) cs2 \<Longrightarrow> drop_cells fc cs1 r = drop_cells fc cs2 r"
proof (induction r arbitrary: cs1 cs2)
  case Nil
  then show ?case by (simp add: drop_cells_def)
next
  case (Cons x r)
  show ?case
  proof (cases cs1)
    case Nil
    with Cons.prems show ?thesis by (simp add: drop_cells_def)
  next
    case c1: (Cons a as)
    with Cons.prems obtain b bs where c2: "cs2 = b # bs" by (cases cs2) auto
    from Cons.prems c1 c2 have h: "(a = fc) = (b = fc)" and t: "map (\<lambda>c. c = fc) as = map (\<lambda>c. c = fc) bs"
      by auto
    from Cons.IH [OF t] h show ?thesis
      by (auto simp add: drop_cells_def c1 c2)
  qed
qed

lemma stripped_rest_by_flags:
  "map strip cs1 = map strip cs2 \<Longrightarrow> map (\<lambda>c. c = fc) cs1 = map (\<lambda>c. c = fc) cs2 \<Longrightarrow>
     map strip (filter (\<lambda>l. l \<noteq> fc) cs1) = map strip (filter (\<lambda>l. l \<noteq> fc) cs2)"
proof (induction cs1 arbitrary: cs2)
  case Nil
  then show ?case by simp
next
  case (Cons a as)
  then obtain b bs where c2: "cs2 = b # bs" by (cases cs2) auto
  with Cons.prems have "strip a = strip b" "(a = fc) = (b = fc)"
    "map strip as = map strip bs" "map (\<lambda>c. c = fc) as = map (\<lambda>c. c = fc) bs"
    by auto
  with Cons.IH [of bs] show ?case by (auto simp add: c2)
qed

lemma process_by_stripped_labels:
  assumes r: "rows df1 = rows df2"
    and s: "map strip (columns df1) = map strip (columns df2)"
    and f: "map (\<lambda>c. c = fc) (columns df1) = map (\<lambda>c. c = fc) (columns df2)"
  shows "process_road_euro_stat df1 cols fc = process_road_euro_stat df2 cols fc"
proof -
  have p: "column_positions fc (columns df1) = column_positions fc (columns df2)"
    using f by (rule positions_by_flags)
  have c: "\<And>q. column_at q df1 = column_at q df2"
    by (simp add: column_at_def r)
  have d: "drop_cells fc (columns df1) = drop_cells fc (columns df2)"
    using drop_cells_by_flags [OF f] by (intro ext)
  have l: "map strip (filter (\<lambda>l. l \<noteq> fc) (columns df1)) =
      map strip (filter (\<lambda>l. l \<noteq> fc) (columns df2))"
    using s f by (rule stripped_rest_by_flags)
  have h: "\<And>sc. (concat_columns sc (drop_label fc df1))
        \<lparr>columns := map strip (columns (concat_columns sc (drop_label fc df1)))\<rparr> =
      (concat_columns sc (drop_label fc df2))
        \<lparr>columns := map strip (columns (concat_columns sc (drop_label fc df2)))\<rparr>"
    by (simp add: concat_columns_def drop_label_def d l r)
  show ?thesis
    unfolding process_road_euro_stat_def Let_def p c h by (rule refl)
qed

lemma process_unfold:
  assumes "column_positions fc (columns df) = [p]"
  shows "process_road_euro_stat df cols fc =
     (if numeric_column (column_at p df) then Inl AttributeError
      else if split_width (column_at p df) \<noteq> length cols then Inl ValueError
      else melt (reshaped_frame df cols fc p) cols ''TIME_PERIOD'' ''value'')"
  unfolding process_road_euro_stat_def assms
  by (simp add: Let_def reshaped_frame_def concat_columns_def drop_label_def)

lemma process_Inr:
  assumes "process_road_euro_stat df cols fc = Inr out"
  shows "\<exists>p. column_positions fc (columns df) = [p]
     \<and> \<not> numeric_column (column_at p df)
     \<and> split_width (column_at p df) = length cols
     \<and> melt (reshaped_frame df cols fc p) cols ''TIME_PERIOD'' ''value'' = Inr out"
proof (cases "column_positions fc (columns df)")
  case Nil
  with assms show ?thesis by (simp add: process_road_euro_stat_def)
next
  case (Cons p ps)
  show ?thesis
  proof (cases ps)
    case Nil
    with Cons have pos: "column_positions fc (columns df) = [p]" by simp
    from assms show ?thesis
      unfolding process_unfold [OF pos] pos
      by (auto split: if_splits)
  next
    case (Cons q qs)
    with \<open>column_positions fc (columns df) = p # ps\<close> assms show ?thesis
      by (simp add: process_road_euro_stat_def)
  qed
qed

lemma melt_Inr:
  assumes "melt frame ids var val = Inr out"
  shows "val \<notin> set (columns frame) \<and> set ids \<subseteq> set (columns frame)
     \<and> \<not> list_ex (\<lambda>c. 1 < count_list (columns frame) c) ids
     \<and> columns out = ids @ [var, val]"
  using assms by (auto simp add: melt_def Let_def split: if_splits)

lemma process_columns_trimmed:
  assumes "process_road_euro_stat df cols fc = Inr out"
  shows "columns out = cols @ [''TIME_PERIOD'', ''value''] \<and> (\<forall>c \<in> set (columns out). strip c = c)"
proof -
  from process_Inr [OF assms] obtain p where
    m: "melt (reshaped_frame df cols fc p) cols ''TIME_PERIOD'' ''value'' = Inr out"
    by blast
  from melt_Inr [OF m] have sub: "set cols \<subseteq> set (columns (reshaped_frame df cols fc p))"
    and co: "columns out = cols @ [''TIME_PERIOD'', ''value'']"
    by blast+
  have "\<forall>c \<in> set cols. strip c = c"
  proof
    fix c assume "c \<in> set cols"
    with sub obtain x where "c = strip x"
      by (auto simp add: reshaped_frame_def)
    then show "strip c = c" by (simp add: strip_idem)
  qed
  moreover have "strip ''TIME_PERIOD'' = ''TIME_PERIOD''" "strip ''value'' = ''value''"
    by (simp_all add: strip_def is_space_def)
  ultimately show ?thesis using co by auto
qed

text \<open>
  C8, as amended. Two wide tables with the same rows whose column names agree after
  trimming, and in which the same columns carry exactly the label \<open>first_col\<close>,
  give the same result (the same output or the same error); and every column name of
  an output is trimmed. The compound column is looked up by its exact name before any
  name is trimmed, so padding is free only in the other headers.
\<close>

theorem process_invariant_under_year_padding:
  assumes "rows df1 = rows df2"
    and "map strip (columns df1) = map strip (columns df2)"
    and "map (\<lambda>c. c = first_col) (columns df1) = map (\<lambda>c. c = first_col) (columns df2)"
  shows "process_road_euro_stat df1 cols first_col = process_road_euro_stat df2 cols first_col
     \<and> (\<forall>out. process_road_euro_stat df1 cols first_col = Inr out \<longrightarrow>
           (\<forall>c \<in> set (columns out). strip c = c))"
  using process_by_stripped_labels [OF assms] process_columns_trimmed by blast

theorem process_invariant_under_year_padding_witness:
  "process_road_euro_stat padded_a [''freq'', ''geo''] ''k'' =
     process_road_euro_stat padded_b [''freq'', ''geo''] ''k''
   \<and> process_road_euro_stat padded_a [''freq'', ''geo''] ''k'' =
     Inr \<lparr>columns = [''freq'', ''geo'', ''TIME_PERIOD'', ''value''],
          rows = [[Str ''A'', Str ''BE'', Str ''2021'', Num 1],
                  [Str ''A'', Str ''FR'', Str ''2021'', NaN],
                  [Str ''A'', Str ''BE'', Str ''2022'', Num 2],
                  [Str ''A'', Str ''FR'', Str ''2022'', Num 4]]\<rparr>"
proof -
  have h: "rows padded_a = rows padded_b"
    "map strip (columns padded_a) = map strip (columns padded_b)"
    "map (\<lambda>c. c = ''k'') (columns padded_a) = map (\<lambda>c. c = ''k'') (columns padded_b)"
    by code_simp+
  have v: "process_road_euro_stat padded_a [''freq'', ''geo''] ''k'' =
     Inr \<lparr>columns = [''freq'', ''geo'', ''TIME_PERIOD'', ''value''],
          rows = [[Str ''A'', Str ''BE'', Str ''2021'', Num 1],
                  [Str ''A'', Str ''FR'', Str ''2021'', NaN],
                  [Str ''A'', Str ''BE'', Str ''2022'', Num 2],
                  [Str ''A'', Str ''FR'', Str ''2022'', Num 4]]\<rparr>"
    by code_simp
  from process_invariant_under_year_padding [OF h, of "[''freq'', ''geo'']"] v
  show ?thesis by blast
qed

text \<open>
  C8 as stated fails: padding the compound column's own header changes the result from
  a table to KeyError.
\<close>

theorem process_depends_on_compound_header_padding:
  "rows padded_a = rows padded_key
   \<and> map strip (columns padded_a) = map strip (columns padded_key)
   \<and> process_road_euro_stat padded_a [''freq'', ''geo''] ''k'' =
     Inr \<lparr>columns = [''freq'', ''geo'', ''TIME_PERIOD'', ''value''],
          rows = [[Str ''A'', Str ''BE'', Str ''2021'', Num 1],
                  [Str ''A'', Str ''FR'', Str ''2021'', NaN],
                  [Str ''A'', Str ''BE'', Str ''2022'', Num 2],
                  [Str ''A'', Str ''FR'', Str ''2022'', Num 4]]\<rparr>
   \<and> process_road_euro_stat padded_key [''freq'', ''geo''] ''k'' = Inl KeyError"
  by code_simp

section \<open>Lists of columns and blocks of rows\<close>






























section \<open>The reshape round trip\<close>





section \<open>The annotated tables and the filters\<close>

lemma fold_max_ge: "a \<le> fold max xs (a::nat)"
  by (induction xs arbitrary: a) (auto intro: le_trans [OF max.cobounded2])

lemma fold_max_upper: "x \<in> set xs \<Longrightarrow> x \<le> fold max xs (a::nat)"
proof (induction xs arbitrary: a)
  case Nil
  then show ?case by simp
next
  case (Cons y ys)
  show ?case
  proof (cases "x = y")
    case True
    have "max y a \<le> fold max ys (max y a)" by (rule fold_max_ge)
    with True show ?thesis by simp
  next
    case False
    with Cons show ?thesis by simp
  qed
qed

lemma split_cell_no_number: "\<forall>c \<in> set (split_cell x). \<not> is_Num c"
  by (cases x) auto

lemma split_rows_shape:
  assumes "a \<in> set (str_split_expand series)"
  shows "length a = split_width series \<and> (\<forall>c \<in> set a. \<not> is_Num c)"
proof -
  from assms obtain x where x: "x \<in> set series"
    and a: "a = split_cell x @ replicate (split_width series - length (split_cell x)) NaN"
    by (auto simp add: str_split_expand_def)
  have "length (split_cell x) \<in> set (map (length \<circ> split_cell) series)" using x by auto
  then have "length (split_cell x) \<le> split_width series"
    unfolding split_width_def by (rule fold_max_upper)
  with a split_cell_no_number [of x] show ?thesis by auto
qed

lemma index_of_le: "k < length xs \<Longrightarrow> xs ! k = c \<Longrightarrow> index_of c xs \<le> k"
proof (induction xs arbitrary: k)
  case Nil
  then show ?case by simp
next
  case (Cons a xs)
  then show ?case by (cases k) auto
qed

lemma melt_rows:
  assumes "melt frame ids var val = Inr out"
  shows "rows out = concat (map (\<lambda>j.
           map (\<lambda>r. map (melt_cell (columns frame) ids var val j r) (ids @ [var, val]))
             (rows frame))
           (filter (\<lambda>j. columns frame ! j \<notin> set ids) [0..<length (columns frame)]))"
  using assms by (auto simp add: melt_def Let_def split: if_splits)

lemma reshaped_row_parts:
  assumes "r \<in> set (rows (reshaped_frame df cols fc p))"
  shows "\<exists>a b. r = a @ b \<and> length a = split_width (column_at p df) \<and> (\<forall>c \<in> set a. \<not> is_Num c)"
proof -
  from assms obtain a b where r: "r = a @ b" and a: "a \<in> set (str_split_expand (column_at p df))"
    by (auto simp add: reshaped_frame_def dest: set_zip_leftD)
  from split_rows_shape [OF a] r show ?thesis by blast
qed

lemma process_key_cells:
  assumes ok: "process_road_euro_stat df cols fc = Inr out"
    and tp: "''TIME_PERIOD'' \<notin> set cols"
  shows "wf_frame out \<and> key_cells (length cols) out"
proof -
  from process_Inr [OF ok] obtain p where
    w: "split_width (column_at p df) = length cols"
    and m: "melt (reshaped_frame df cols fc p) cols ''TIME_PERIOD'' ''value'' = Inr out"
    by blast
  let ?frame = "reshaped_frame df cols fc p"
  let ?L = "columns ?frame"
  from melt_Inr [OF m] have v: "''value'' \<notin> set ?L" and sub: "set cols \<subseteq> set ?L"
    and co: "columns out = cols @ [''TIME_PERIOD'', ''value'']"
    by blast+
  have L: "?L = map strip (cols @ filter (\<lambda>l. l \<noteq> fc) (columns df))"
    by (simp add: reshaped_frame_def)
  have cellok: "\<And>j r c. r \<in> set (rows ?frame) \<Longrightarrow> c \<in> set cols \<Longrightarrow>
      \<not> is_Num (melt_cell ?L cols ''TIME_PERIOD'' ''value'' j r c)"
  proof -
    fix j r c assume r: "r \<in> set (rows ?frame)" and c: "c \<in> set cols"
    from c tp have n1: "c \<noteq> ''TIME_PERIOD''" by blast
    from c sub v have n2: "c \<noteq> ''value''" by blast
    from c obtain k where k: "k < length cols" "cols ! k = c"
      by (auto simp add: in_set_conv_nth)
    from c sub obtain x where "c = strip x" unfolding L by auto
    then have sc: "strip c = c" by (simp add: strip_idem)
    have "?L ! k = c" using k sc unfolding L by (simp add: nth_append)
    moreover have "k < length ?L" using k unfolding L by simp
    ultimately have "index_of c ?L \<le> k" by (intro index_of_le)
    with k have i: "index_of c ?L < length cols" by simp
    from reshaped_row_parts [OF r] w obtain a b where
      ab: "r = a @ b" "length a = length cols" "\<forall>c \<in> set a. \<not> is_Num c"
      by auto
    from ab i have "r ! index_of c ?L \<in> set a" by (simp add: nth_append)
    with ab have "\<not> is_Num (r ! index_of c ?L)" by blast
    with n1 n2 show "\<not> is_Num (melt_cell ?L cols ''TIME_PERIOD'' ''value'' j r c)"
      by (simp add: melt_cell_def)
  qed
  have rowok: "\<forall>row \<in> set (rows out). length row = length (columns out)
      \<and> length cols \<le> length row \<and> (\<forall>c \<in> set (take (length cols) row). \<not> is_Num c)"
  proof
    fix row assume "row \<in> set (rows out)"
    then obtain j r where r: "r \<in> set (rows ?frame)"
      and row: "row = map (melt_cell ?L cols ''TIME_PERIOD'' ''value'' j r)
                 (cols @ [''TIME_PERIOD'', ''value''])"
      unfolding melt_rows [OF m] by auto
    have t: "take (length cols) row = map (melt_cell ?L cols ''TIME_PERIOD'' ''value'' j r) cols"
      unfolding row by simp
    have "\<forall>c \<in> set (take (length cols) row). \<not> is_Num c"
      unfolding t using cellok [OF r] by auto
    then show "length row = length (columns out)
      \<and> length cols \<le> length row \<and> (\<forall>c \<in> set (take (length cols) row). \<not> is_Num c)"
      using row co by simp
  qed
  then show ?thesis
    unfolding wf_frame_def key_cells_def list_all_iff by blast
qed

lemma merge_and_rename_keeps:
  assumes ok: "merge_and_rename src df merge_on new = Inr out"
    and pos: "column_positions merge_on (columns df) = [p]"
    and c1: "''Country'' \<notin> set (columns df)"
    and c2: "''Alpha-2 code'' \<notin> set (columns df)"
    and nn: "new \<noteq> ''Alpha-2 code''"
    and wf: "wf_frame df"
    and kc: "key_cells n df"
  shows "columns out = columns df @ [new] \<and> wf_frame out \<and> key_cells n out"
proof -
  let ?rs = "concat (map (annotate (get_country_codes src) p) (rows df))"
  from ok merge_and_rename_rows [OF pos c1 c2 nn wf, of src]
  have out: "out = \<lparr>columns = columns df @ [new], rows = ?rs\<rparr>"
    by (auto split: if_splits)
  from out have ro: "rows out = ?rs" and co: "columns out = columns df @ [new]"
    by simp_all
  have "\<forall>row \<in> set ?rs. length row = length (columns df @ [new])
      \<and> n \<le> length row \<and> (\<forall>c \<in> set (take n row). \<not> is_Num c)"
  proof
    fix row assume "row \<in> set ?rs"
    from annotated_row_origin [OF this] obtain r x where r: "r \<in> set (rows df)" and row: "row = r @ [x]"
      by blast
    from r wf have l: "length r = length (columns df)"
      by (simp add: wf_frame_def list_all_iff)
    from r kc have k: "n \<le> length r" "\<forall>c \<in> set (take n r). \<not> is_Num c"
      by (simp_all add: key_cells_def list_all_iff)
    from l k row show "length row = length (columns df @ [new])
      \<and> n \<le> length row \<and> (\<forall>c \<in> set (take n row). \<not> is_Num c)"
      by simp
  qed
  then have "wf_frame out \<and> key_cells n out"
    unfolding wf_frame_def key_cells_def list_all_iff ro co by blast
  with co show ?thesis by blast
qed

lemma key_column_not_numeric:
  assumes "key_cells n t" and "k < n"
  shows "\<not> numeric_column (column_at k t)"
proof -
  have "\<forall>r \<in> set (rows t). \<not> is_Num (r ! k)"
  proof
    fix r assume "r \<in> set (rows t)"
    with assms(1) have "n \<le> length r" "\<forall>c \<in> set (take n r). \<not> is_Num c"
      by (simp_all add: key_cells_def list_all_iff)
    moreover from this assms(2) have "r ! k \<in> set (take n r)"
      by (metis in_set_conv_nth length_take min.absorb2 nth_take)
    ultimately show "\<not> is_Num (r ! k)" by blast
  qed
  then show ?thesis by (simp add: numeric_column_def list_ex_iff column_at_def)
qed

lemma annotated_twice:
  assumes ok: "and_then (process_road_euro_stat raw cols fc) (\<lambda>t.
                 and_then (merge_and_rename src t on1 new1) (\<lambda>t.
                   merge_and_rename src t on2 new2)) = Inr out"
    and tp: "''TIME_PERIOD'' \<notin> set cols"
    and p1: "column_positions on1 (cols @ [''TIME_PERIOD'', ''value'']) = [q1]"
    and p2: "column_positions on2 (cols @ [''TIME_PERIOD'', ''value'', new1]) = [q2]"
    and a1: "''Country'' \<notin> set (cols @ [''TIME_PERIOD'', ''value'', new1])"
    and a2: "''Alpha-2 code'' \<notin> set (cols @ [''TIME_PERIOD'', ''value'', new1])"
    and n2: "new2 \<noteq> ''Alpha-2 code''"
  shows "columns out = annotated_columns cols new1 new2 \<and> key_cells (length cols) out"
proof -
  from ok obtain t0 where t0: "process_road_euro_stat raw cols fc = Inr t0"
    and r0: "and_then (merge_and_rename src t0 on1 new1) (\<lambda>t. merge_and_rename src t on2 new2) = Inr out"
    by (cases "process_road_euro_stat raw cols fc") (simp_all add: and_then_def)
  from r0 obtain t1 where t1: "merge_and_rename src t0 on1 new1 = Inr t1"
    and t2: "merge_and_rename src t1 on2 new2 = Inr out"
    by (cases "merge_and_rename src t0 on1 new1") (simp_all add: and_then_def)
  from process_columns_trimmed [OF t0] have c0: "columns t0 = cols @ [''TIME_PERIOD'', ''value'']"
    by blast
  from process_key_cells [OF t0 tp] have w0: "wf_frame t0" and k0: "key_cells (length cols) t0"
    by blast+
  from a1 a2 have b1: "''Country'' \<notin> set (columns t0)" "''Alpha-2 code'' \<notin> set (columns t0)"
    "new1 \<noteq> ''Alpha-2 code''"
    unfolding c0 by auto
  from merge_and_rename_keeps [OF t1 _ b1 w0 k0, of q1] p1
  have c1: "columns t1 = cols @ [''TIME_PERIOD'', ''value'', new1]"
    and w1: "wf_frame t1" and k1: "key_cells (length cols) t1"
    unfolding c0 by simp_all
  from a1 a2 have b2: "''Country'' \<notin> set (columns t1)" "''Alpha-2 code'' \<notin> set (columns t1)"
    unfolding c1 by auto
  from merge_and_rename_keeps [OF t2 _ b2 n2 w1 k1, of q2] p2
  show ?thesis
    unfolding c1 by (simp add: annotated_columns_def)
qed

lemma lgtt_positions:
  "column_positions ''tra_type'' lgtt_columns = [1]"
  "column_positions ''unit'' lgtt_columns = [4]"
  "column_positions ''nst07'' lgtt_columns = [3]"
  "column_positions ''TIME_PERIOD'' lgtt_columns = [6]"
  "column_positions ''c_unload'' lgtt_columns = [2]"
  by code_simp+

lemma lgtt_indices:
  "index_of ''tra_type'' lgtt_columns = 1"
  "index_of ''unit'' lgtt_columns = 4"
  "index_of ''nst07'' lgtt_columns = 3"
  "index_of ''TIME_PERIOD'' lgtt_columns = 6"
  "index_of ''c_unload'' lgtt_columns = 2"
  by code_simp+

lemma ugtt_positions:
  "column_positions ''tra_type'' ugtt_columns = [1]"
  "column_positions ''unit'' ugtt_columns = [4]"
  "column_positions ''nst07'' ugtt_columns = [3]"
  "column_positions ''TIME_PERIOD'' ugtt_columns = [6]"
  "column_positions ''c_load'' ugtt_columns = [2]"
  by code_simp+

lemma ugtt_indices:
  "index_of ''tra_type'' ugtt_columns = 1"
  "index_of ''unit'' ugtt_columns = 4"
  "index_of ''nst07'' ugtt_columns = 3"
  "index_of ''TIME_PERIOD'' ugtt_columns = 6"
  "index_of ''c_load'' ugtt_columns = 2"
  by code_simp+

lemma cross_positions:
  "column_positions ''tra_type'' cross_columns = [1]"
  "column_positions ''unit'' cross_columns = [5]"
  "column_positions ''nst07'' cross_columns = [4]"
  "column_positions ''TIME_PERIOD'' cross_columns = [7]"
  "column_positions ''c_load'' cross_columns = [2]"
  "column_positions ''c_unload'' cross_columns = [3]"
  by code_simp+

lemma cross_indices:
  "index_of ''tra_type'' cross_columns = 1"
  "index_of ''unit'' cross_columns = 5"
  "index_of ''nst07'' cross_columns = 4"
  "index_of ''TIME_PERIOD'' cross_columns = 7"
  "index_of ''c_load'' cross_columns = 2"
  "index_of ''c_unload'' cross_columns = 3"
  by code_simp+

lemma len_mask_column: "map (has_len n) (column_at e t) = map (\<lambda>r. has_len n (r ! e)) (rows t)"
  by (simp add: column_at_def)

lemma lgtt_filter_rows:
  assumes c: "columns t = lgtt_columns" and k: "key_cells 6 t"
  shows "lgtt_filter t = Inr (t\<lparr>rows := filter (total_2022 t [''c_unload'']) (rows t)\<rparr>)"
proof -
  have n: "\<not> numeric_column (column_at 2 t)"
    using k by (rule key_column_not_numeric) simp
  have p: "total_2022 t [''c_unload''] =
      (\<lambda>r. (((r ! 1 = Str ''TOTAL'' \<and> r ! 4 = Str ''THS_T'') \<and> r ! 3 = Str ''TOTAL'')
            \<and> r ! 6 = Str ''2022'') \<and> has_len 2 (r ! 2))"
    by (intro ext) (simp add: total_2022_def field_def c lgtt_indices)
  show ?thesis
    unfolding lgtt_filter_def getattr_column_def c lgtt_positions p
    using n
    by (simp add: str_len_eq_def eq_str_column len_mask_column mask_and_map select_rows_predicate)
qed

lemma ugtt_filter_rows:
  assumes c: "columns t = ugtt_columns" and k: "key_cells 6 t"
  shows "ugtt_filter t = Inr (t\<lparr>rows := filter (total_2022 t [''c_load'']) (rows t)\<rparr>)"
proof -
  have n: "\<not> numeric_column (column_at 2 t)"
    using k by (rule key_column_not_numeric) simp
  have p: "total_2022 t [''c_load''] =
      (\<lambda>r. (((r ! 1 = Str ''TOTAL'' \<and> r ! 4 = Str ''THS_T'') \<and> r ! 3 = Str ''TOTAL'')
            \<and> r ! 6 = Str ''2022'') \<and> has_len 2 (r ! 2))"
    by (intro ext) (simp add: total_2022_def field_def c ugtt_indices)
  show ?thesis
    unfolding ugtt_filter_def getattr_column_def c ugtt_positions p
    using n
    by (simp add: str_len_eq_def eq_str_column len_mask_column mask_and_map select_rows_predicate)
qed

lemma cross_filter_rows:
  assumes c: "columns t = cross_columns" and k: "key_cells 7 t"
  shows "cross_filter t = Inr (t\<lparr>rows := filter (total_2022 t [''c_load'', ''c_unload'']) (rows t)\<rparr>)"
proof -
  have n: "\<not> numeric_column (column_at 2 t)" "\<not> numeric_column (column_at 3 t)"
    using key_column_not_numeric [OF k, of 2] key_column_not_numeric [OF k, of 3] by simp_all
  have p: "total_2022 t [''c_load'', ''c_unload''] =
      (\<lambda>r. ((((r ! 1 = Str ''TOTAL'' \<and> r ! 5 = Str ''THS_T'') \<and> r ! 4 = Str ''TOTAL'')
            \<and> r ! 7 = Str ''2022'') \<and> has_len 2 (r ! 2)) \<and> has_len 2 (r ! 3))"
    by (intro ext) (auto simp add: total_2022_def field_def c cross_indices)
  show ?thesis
    unfolding cross_filter_def getattr_column_def c cross_positions p
    using n
    by (simp add: str_len_eq_def eq_str_column len_mask_column mask_and_map select_rows_predicate)
qed

lemma annotation_side_conditions:
  "''TIME_PERIOD'' \<notin> set lgtt_cols"
  "column_positions ''c_unload'' (lgtt_cols @ [''TIME_PERIOD'', ''value'']) = [2]"
  "column_positions ''geo'' (lgtt_cols @ [''TIME_PERIOD'', ''value'', ''unload_country'']) = [5]"
  "''Country'' \<notin> set (lgtt_cols @ [''TIME_PERIOD'', ''value'', ''unload_country''])"
  "''Alpha-2 code'' \<notin> set (lgtt_cols @ [''TIME_PERIOD'', ''value'', ''unload_country''])"
  "''TIME_PERIOD'' \<notin> set ugtt_cols"
  "column_positions ''c_load'' (ugtt_cols @ [''TIME_PERIOD'', ''value'']) = [2]"
  "column_positions ''geo'' (ugtt_cols @ [''TIME_PERIOD'', ''value'', ''load_country'']) = [5]"
  "''Country'' \<notin> set (ugtt_cols @ [''TIME_PERIOD'', ''value'', ''load_country''])"
  "''Alpha-2 code'' \<notin> set (ugtt_cols @ [''TIME_PERIOD'', ''value'', ''load_country''])"
  "''TIME_PERIOD'' \<notin> set cross_cols"
  "column_positions ''c_load'' (cross_cols @ [''TIME_PERIOD'', ''value'']) = [2]"
  "column_positions ''c_unload'' (cross_cols @ [''TIME_PERIOD'', ''value'', ''load_country'']) = [3]"
  "''Country'' \<notin> set (cross_cols @ [''TIME_PERIOD'', ''value'', ''load_country''])"
  "''Alpha-2 code'' \<notin> set (cross_cols @ [''TIME_PERIOD'', ''value'', ''load_country''])"
  "''geo_country'' \<noteq> ''Alpha-2 code''"
  "''unload_country'' \<noteq> ''Alpha-2 code''"
  "length lgtt_cols = 6" "length ugtt_cols = 6" "length cross_cols = 7"
  by code_simp+

lemma lgtt_annotated_shape:
  assumes "lgtt_annotated src raw = Inr t"
  shows "columns t = lgtt_columns \<and> key_cells 6 t"
  using annotated_twice [OF assms [unfolded lgtt_annotated_def] annotation_side_conditions(1-5)
      annotation_side_conditions(16)]
  by (simp add: lgtt_columns_def annotation_side_conditions(18))

lemma ugtt_annotated_shape:
  assumes "ugtt_annotated src raw = Inr t"
  shows "columns t = ugtt_columns \<and> key_cells 6 t"
  using annotated_twice [OF assms [unfolded ugtt_annotated_def] annotation_side_conditions(6-10)
      annotation_side_conditions(16)]
  by (simp add: ugtt_columns_def annotation_side_conditions(19))

lemma cross_annotated_shape:
  assumes "cross_annotated src raw = Inr t"
  shows "columns t = cross_columns \<and> key_cells 7 t"
  using annotated_twice [OF assms [unfolded cross_annotated_def] annotation_side_conditions(11-15)
      annotation_side_conditions(17)]
  by (simp add: cross_columns_def annotation_side_conditions(20))

text \<open>
  C4. Each of the three annotated tidy tables, as the script builds it by reshaping and
  annotating twice, is filtered to exactly its rows with transport type \<open>TOTAL\<close>,
  unit \<open>THS_T\<close>, goods category \<open>TOTAL\<close>, year \<open>2022\<close> and a code of length 2 in
  every relevant code column (\<open>c_unload\<close> for lgtt, \<open>c_load\<close> for ugtt, both for the
  cross table): the filter never raises, keeps these rows in order and drops all others.
\<close>

theorem filters_keep_exactly_total_2022:
  "(lgtt_annotated src raw_lgtt = Inr lgtt \<longrightarrow>
      lgtt_filter lgtt = Inr (lgtt\<lparr>rows := filter (total_2022 lgtt [''c_unload'']) (rows lgtt)\<rparr>))
   \<and> (ugtt_annotated src raw_ugtt = Inr ugtt \<longrightarrow>
      ugtt_filter ugtt = Inr (ugtt\<lparr>rows := filter (total_2022 ugtt [''c_load'']) (rows ugtt)\<rparr>))
   \<and> (cross_annotated src raw_cross = Inr cross \<longrightarrow>
      cross_filter cross =
        Inr (cross\<lparr>rows := filter (total_2022 cross [''c_load'', ''c_unload'']) (rows cross)\<rparr>))"
proof (intro conjI impI)
  assume "lgtt_annotated src raw_lgtt = Inr lgtt"
  from lgtt_annotated_shape [OF this]
  show "lgtt_filter lgtt = Inr (lgtt\<lparr>rows := filter (total_2022 lgtt [''c_unload'']) (rows lgtt)\<rparr>)"
    by (intro lgtt_filter_rows) simp_all
next
  assume "ugtt_annotated src raw_ugtt = Inr ugtt"
  from ugtt_annotated_shape [OF this]
  show "ugtt_filter ugtt = Inr (ugtt\<lparr>rows := filter (total_2022 ugtt [''c_load'']) (rows ugtt)\<rparr>)"
    by (intro ugtt_filter_rows) simp_all
next
  assume "cross_annotated src raw_cross = Inr cross"
  from cross_annotated_shape [OF this]
  show "cross_filter cross =
        Inr (cross\<lparr>rows := filter (total_2022 cross [''c_load'', ''c_unload'']) (rows cross)\<rparr>)"
    by (intro cross_filter_rows) simp_all
qed

lemma annotated_examples:
  "lgtt_annotated src_example raw_lgtt_example = Inr lgtt_annotated_example"
  "ugtt_annotated src_example raw_ugtt_example = Inr ugtt_annotated_example"
  "cross_annotated src_example raw_cross_example = Inr cross_annotated_example"
  by code_simp+

lemma filtered_examples:
  "filter (total_2022 lgtt_annotated_example [''c_unload'']) (rows lgtt_annotated_example) =
     [rows lgtt_annotated_example ! 2]"
  "filter (total_2022 ugtt_annotated_example [''c_load'']) (rows ugtt_annotated_example) =
     [rows ugtt_annotated_example ! 0]"
  "filter (total_2022 cross_annotated_example [''c_load'', ''c_unload'']) (rows cross_annotated_example) =
     [rows cross_annotated_example ! 0]"
  by code_simp+

theorem filters_keep_exactly_total_2022_witness:
  "lgtt_annotated src_example raw_lgtt_example = Inr lgtt_annotated_example
   \<and> lgtt_filter lgtt_annotated_example =
       Inr (lgtt_annotated_example\<lparr>rows := [rows lgtt_annotated_example ! 2]\<rparr>)
   \<and> ugtt_annotated src_example raw_ugtt_example = Inr ugtt_annotated_example
   \<and> ugtt_filter ugtt_annotated_example =
       Inr (ugtt_annotated_example\<lparr>rows := [rows ugtt_annotated_example ! 0]\<rparr>)
   \<and> cross_annotated src_example raw_cross_example = Inr cross_annotated_example
   \<and> cross_filter cross_annotated_example =
       Inr (cross_annotated_example\<lparr>rows := [rows cross_annotated_example ! 0]\<rparr>)"
  using filters_keep_exactly_total_2022 [of src_example raw_lgtt_example lgtt_annotated_example
      raw_ugtt_example ugtt_annotated_example raw_cross_example cross_annotated_example]
    annotated_examples
  unfolding filtered_examples by blast

end
